theory Spec2Isabelle
  imports Complex_Main
begin

section \<open>Emotion graph: data model\<close>

text \<open>
  The program \<^verbatim>\<open>code.c\<close> keeps a growable array of emotion nodes; every node owns a
  growable array of outgoing edges and one of tips.  The arrays are modelled as lists
  (the \<^verbatim>\<open>count\<close> fields are the list lengths; the \<^verbatim>\<open>cap\<close> fields only drive
  \<^verbatim>\<open>realloc\<close> and are left out, as is the \<^verbatim>\<open>exit(1)\<close> on memory exhaustion).
  C strings are \<^typ>\<open>string\<close>; the end of the list plays the role of the terminating NUL.
  A \<^verbatim>\<open>char *\<close> that may be \<^verbatim>\<open>NULL\<close> is a \<^typ>\<open>string option\<close>.

  A value of type \<^verbatim>\<open>float\<close> is the rational number it denotes.  Every arithmetic
  operation on floats rounds its exact result to binary32 (section on binary32
  arithmetic below), as the C implementation does operation by operation.  Outside the
  model: results beyond \<^verbatim>\<open>FLT_MAX\<close> in magnitude (infinite in C), not-a-number,
  and the sign of zero.
\<close>

record Edge =
  to :: int
  weight :: rat
  procedure :: "string option"

record EmotionNode =
  name :: string
  valence :: rat
  baseline_intensity :: rat
  edges :: "Edge list"
  tips :: "string list"

type_synonym EmotionGraph = "EmotionNode list"

definition MAX_NAME_LEN :: nat where
  "MAX_NAME_LEN = 48"

definition MAX_LINE :: nat where
  "MAX_LINE = 1024"

definition FLT_MAX :: rat where
  "FLT_MAX = 340282346638528859811704183484516925440"

section \<open>Binary32 arithmetic\<close>

text \<open>
  Rounding to the nearest number with a significand of \<open>p\<close> bits and least exponent
  \<open>emin\<close> (below it the spacing stays that of exponent \<open>emin\<close>: subnormal numbers),
  a tie going to the even significand.  \<open>bit_length n\<close> is the number of binary digits
  of \<open>n\<close>, and \<open>floor_log2 x\<close> the exponent \<open>e\<close> with \<open>2 ^ e \<le> x < 2 ^ (e + 1)\<close> for
  positive \<open>x\<close>.
\<close>

function bit_length :: "int \<Rightarrow> nat" where
  "bit_length n = (if n \<le> 0 then 0 else Suc (bit_length (n div 2)))"
  by pat_completeness auto
termination
  by (relation "measure nat") auto

definition floor_log2 :: "rat \<Rightarrow> int" where
  "floor_log2 x =
     (if 1 \<le> x then int (bit_length \<lfloor>x\<rfloor>) - 1
      else - int (bit_length (\<lceil>1 / x\<rceil> - 1)))"

definition pow2 :: "int \<Rightarrow> rat" where
  "pow2 k = (if 0 \<le> k then 2 ^ nat k else 1 / 2 ^ nat (- k))"

definition round_half_even :: "rat \<Rightarrow> int" where
  "round_half_even y =
     (let f = \<lfloor>y\<rfloor>; r = y - of_int f in
      if r < 1 / 2 then f else if 1 / 2 < r then f + 1 else if even f then f else f + 1)"

definition round_binary :: "nat \<Rightarrow> int \<Rightarrow> rat \<Rightarrow> rat" where
  "round_binary p emin x =
     (if x = 0 then 0
      else
        (let e = max (floor_log2 \<bar>x\<bar>) emin;
             ulp = pow2 (e - int p + 1);
             m = round_half_even (\<bar>x\<bar> / ulp)
         in (if x < 0 then - 1 else 1) * of_int m * ulp))"

text \<open>\<^verbatim>\<open>float\<close> is binary32 and \<^verbatim>\<open>double\<close> is binary64.  A constant such as
  \<^verbatim>\<open>0.85f\<close> is \<open>f32 (85 / 100)\<close>; the operators \<^verbatim>\<open>+\<close>, \<^verbatim>\<open>-\<close> and \<^verbatim>\<open>*\<close> on
  two floats are \<open>fadd\<close>, \<open>fsub\<close> and \<open>fmul\<close>.\<close>

definition f32 :: "rat \<Rightarrow> rat" where
  "f32 x = round_binary 24 (- 126) x"

definition f64 :: "rat \<Rightarrow> rat" where
  "f64 x = round_binary 53 (- 1022) x"

definition fadd :: "rat \<Rightarrow> rat \<Rightarrow> rat" where
  "fadd a b = f32 (a + b)"

definition fsub :: "rat \<Rightarrow> rat \<Rightarrow> rat" where
  "fsub a b = f32 (a - b)"

definition fmul :: "rat \<Rightarrow> rat \<Rightarrow> rat" where
  "fmul a b = f32 (a * b)"

section \<open>Graph operations\<close>

definition graph_new :: EmotionGraph where
  "graph_new = []"

text \<open>\<^verbatim>\<open>graph_find\<close>: linear scan with \<^verbatim>\<open>strcmp\<close>; the index of the first node of that
  name, or \<open>-1\<close>.\<close>

fun find_from :: "EmotionNode list \<Rightarrow> string \<Rightarrow> int \<Rightarrow> int" where
  "find_from [] nm i = - 1"
| "find_from (n # ns) nm i = (if name n = nm then i else find_from ns nm (i + 1))"

definition graph_find :: "EmotionGraph \<Rightarrow> string \<Rightarrow> int" where
  "graph_find g nm = find_from g nm 0"

text \<open>\<^verbatim>\<open>graph_add_node\<close>: an existing name is returned as it is; a new node is appended,
  its name cut by \<^verbatim>\<open>strncpy\<close> to \<^verbatim>\<open>MAX_NAME_LEN - 1\<close> characters.\<close>

definition graph_add_node :: "EmotionGraph \<Rightarrow> string \<Rightarrow> rat \<Rightarrow> rat \<Rightarrow> EmotionGraph \<times> int" where
  "graph_add_node g nm val base =
     (let idx = graph_find g nm in
      if idx \<noteq> - 1 then (g, idx)
      else (g @ [\<lparr>name = take (MAX_NAME_LEN - 1) nm, valence = val, baseline_intensity = base,
                   edges = [], tips = []\<rparr>],
            int (length g)))"

definition is_positive_goal_name :: "string \<Rightarrow> bool" where
  "is_positive_goal_name nm = (nm \<in> set [''happy'', ''calm'', ''hopeful'', ''peaceful''])"

text \<open>The clamp \<^verbatim>\<open>(weight < 0.0f) ? 0.0f : weight\<close>.\<close>

definition clamp_weight :: "rat \<Rightarrow> rat" where
  "clamp_weight w = (if w < 0 then 0 else w)"

text \<open>\<^verbatim>\<open>nu->edges[nu->edges_count++] = e\<close> on the node at index \<open>i\<close>.\<close>

definition push_edge :: "EmotionGraph \<Rightarrow> int \<Rightarrow> Edge \<Rightarrow> EmotionGraph" where
  "push_edge g i e = g[nat i := (g ! nat i)\<lparr>edges := edges (g ! nat i) @ [e]\<rparr>]"

text \<open>\<^verbatim>\<open>graph_find\<close> followed by \<^verbatim>\<open>graph_add_node\<close> when the name is absent, as
  \<^verbatim>\<open>graph_add_edge\<close> and \<^verbatim>\<open>graph_add_tip\<close> do for their endpoints.\<close>

definition find_or_add :: "EmotionGraph \<Rightarrow> string \<Rightarrow> rat \<Rightarrow> rat \<Rightarrow> EmotionGraph \<times> int" where
  "find_or_add g nm val base =
     (let u = graph_find g nm in if u = - 1 then graph_add_node g nm val base else (g, u))"

definition graph_add_edge ::
  "EmotionGraph \<Rightarrow> string \<Rightarrow> string \<Rightarrow> rat \<Rightarrow> string option \<Rightarrow> EmotionGraph" where
  "graph_add_edge g from to' w proc =
     (if from = ''overwhelmed'' \<and> is_positive_goal_name to' then g
      else
        (case find_or_add g from (- 1 / 2) 5 of (g1, u) \<Rightarrow>
         (case find_or_add g1 to' 0 5 of (g2, v) \<Rightarrow>
            push_edge
              (push_edge g2 u \<lparr>to = v, weight = clamp_weight w, procedure = proc\<rparr>)
              v \<lparr>to = u, weight = clamp_weight w, procedure = None\<rparr>)))"

definition graph_add_tip :: "EmotionGraph \<Rightarrow> string \<Rightarrow> string \<Rightarrow> EmotionGraph" where
  "graph_add_tip g emotion tip_text =
     (case find_or_add g emotion (f32 (- 2 / 10)) 5 of (g1, idx) \<Rightarrow>
        g1[nat idx := (g1 ! nat idx)\<lparr>tips := tips (g1 ! nat idx) @ [tip_text]\<rparr>])"

section \<open>Personalized Dijkstra\<close>

text \<open>
  The C function indexes the variable-length arrays \<^verbatim>\<open>dist\<close>, \<^verbatim>\<open>visited\<close>,
  \<^verbatim>\<open>prev\<close> and \<^verbatim>\<open>temp\<close> (all of length \<^verbatim>\<open>n = g->count\<close>) without a check.
  An access outside an array is undefined behaviour in C; the model makes it the
  result \<open>Inl Out_Of_Bounds\<close>.
\<close>

datatype fault = Out_Of_Bounds

text \<open>The selection loop
  \<^verbatim>\<open>for (i=0;i<n;++i) if (!visited[i] && dist[i] < best) { best = dist[i]; u = i; }\<close>
  started with \<^verbatim>\<open>u = -1, best = FLT_MAX\<close>.\<close>

definition select_step :: "rat list \<Rightarrow> bool list \<Rightarrow> nat \<Rightarrow> int \<times> rat \<Rightarrow> int \<times> rat" where
  "select_step dis visited i ub =
     (if \<not> visited ! i \<and> dis ! i < snd ub then (int i, dis ! i) else ub)"

definition select_min :: "rat list \<Rightarrow> bool list \<Rightarrow> nat \<Rightarrow> int \<times> rat" where
  "select_min dis visited n = fold (select_step dis visited) [0..<n] (- 1, FLT_MAX)"

text \<open>The weight of edge \<open>e\<close> as the relaxation uses it, one binary32 operation
  after the other: \<^verbatim>\<open>w = e->weight\<close>; \<^verbatim>\<open>w *= 0.85f\<close> when the target has a tip;
  \<^verbatim>\<open>w *= 0.8f\<close> when the edge has a procedure pointer;
  \<^verbatim>\<open>valence_bias = (1.0f - valence) * 0.05f\<close>; \<^verbatim>\<open>w = w * (1.0f - valence_bias)\<close>.
  Then \<^verbatim>\<open>alt = dist[u] + w\<close> is compared with \<^verbatim>\<open>dist[v]\<close>.\<close>

definition tip_factor :: "EmotionGraph \<Rightarrow> Edge \<Rightarrow> rat \<Rightarrow> rat" where
  "tip_factor g e w = (if tips (g ! nat (to e)) \<noteq> [] then fmul w (f32 (85 / 100)) else w)"

definition procedure_factor :: "Edge \<Rightarrow> rat \<Rightarrow> rat" where
  "procedure_factor e w = (if procedure e \<noteq> None then fmul w (f32 (8 / 10)) else w)"

definition valence_bias :: "EmotionGraph \<Rightarrow> Edge \<Rightarrow> rat" where
  "valence_bias g e = fmul (fsub 1 (valence (g ! nat (to e)))) (f32 (5 / 100))"

definition adjusted_weight :: "EmotionGraph \<Rightarrow> Edge \<Rightarrow> rat" where
  "adjusted_weight g e =
     fmul (procedure_factor e (tip_factor g e (weight e))) (fsub 1 (valence_bias g e))"

definition relax_edge ::
  "EmotionGraph \<Rightarrow> nat \<Rightarrow> bool list \<Rightarrow> rat list \<times> int list \<Rightarrow> Edge
     \<Rightarrow> fault + rat list \<times> int list" where
  "relax_edge g u visited dp e =
     (let v = to e in
      if v < 0 \<or> int (length g) \<le> v then Inl Out_Of_Bounds
      else if visited ! nat v then Inr dp
      else
        (let alt = fadd (fst dp ! u) (adjusted_weight g e) in
         if alt < fst dp ! nat v then Inr ((fst dp)[nat v := alt], (snd dp)[nat v := int u])
         else Inr dp))"

fun relax_edges ::
  "EmotionGraph \<Rightarrow> nat \<Rightarrow> bool list \<Rightarrow> rat list \<times> int list \<Rightarrow> Edge list
     \<Rightarrow> fault + rat list \<times> int list" where
  "relax_edges g u visited dp [] = Inr dp"
| "relax_edges g u visited dp (e # es) =
     (case relax_edge g u visited dp e of
        Inl f \<Rightarrow> Inl f
      | Inr dp' \<Rightarrow> relax_edges g u visited dp' es)"

text \<open>The outer loop \<^verbatim>\<open>for (iter=0; iter<n; ++iter)\<close>; the first argument counts the
  iterations that are left.  The state is \<open>(dis, visited, prev)\<close>, \<open>dis\<close> being the array \<^verbatim>\<open>dist\<close>.\<close>

fun dijkstra_loop ::
  "nat \<Rightarrow> EmotionGraph \<Rightarrow> int \<Rightarrow> rat list \<times> bool list \<times> int list
     \<Rightarrow> fault + rat list \<times> bool list \<times> int list" where
  "dijkstra_loop 0 g dest st = Inr st"
| "dijkstra_loop (Suc k) g dest (dis, visited, prev) =
     (let u = fst (select_min dis visited (length g)) in
      if u = - 1 then Inr (dis, visited, prev)
      else
        (let visited' = visited[nat u := True] in
         if u = dest then Inr (dis, visited', prev)
         else
           (case relax_edges g (nat u) visited' (dis, prev) (edges (g ! nat u)) of
              Inl f \<Rightarrow> Inl f
            | Inr (dis1, prev') \<Rightarrow> dijkstra_loop k g dest (dis1, visited', prev'))))"

text \<open>The loop \<^verbatim>\<open>for (cur = dest; cur != -1; cur = prev[cur]) temp[idx++] = cur;\<close>
  followed by the copy in reverse order.  The first argument is the room left in
  \<^verbatim>\<open>temp\<close>; the accumulator is the reversed content of \<^verbatim>\<open>temp\<close>, which is
  what \<^verbatim>\<open>out_path\<close> receives.\<close>

fun build_path :: "nat \<Rightarrow> int list \<Rightarrow> int \<Rightarrow> int list \<Rightarrow> fault + int list" where
  "build_path 0 prev cur acc = (if cur = - 1 then Inr acc else Inl Out_Of_Bounds)"
| "build_path (Suc room) prev cur acc =
     (if cur = - 1 then Inr acc else build_path room prev (prev ! nat cur) (cur # acc))"

text \<open>The result is the returned \<^verbatim>\<open>float\<close> together with what was written to
  \<^verbatim>\<open>out_path\<close> and \<^verbatim>\<open>*out_len\<close>: \<open>None\<close> when the function returns before
  writing them.\<close>

definition run_dijkstra_personalized ::
  "EmotionGraph \<Rightarrow> int \<Rightarrow> int \<Rightarrow> fault + rat \<times> int list option" where
  "run_dijkstra_personalized g src dest =
     (let n = length g in
      if src < 0 \<or> dest < 0 then Inr (FLT_MAX, None)
      else if int n \<le> src then Inl Out_Of_Bounds
      else
        (case dijkstra_loop n g dest
                ((replicate n FLT_MAX)[nat src := 0], replicate n False, replicate n (- 1)) of
           Inl f \<Rightarrow> Inl f
         | Inr (dis, visited, prev) \<Rightarrow>
             if int n \<le> dest then Inl Out_Of_Bounds
             else if dis ! nat dest = FLT_MAX then Inr (FLT_MAX, None)
             else
               (case build_path n prev dest [] of
                  Inl f \<Rightarrow> Inl f
                | Inr p \<Rightarrow> Inr (dis ! nat dest, Some p))))"

text \<open>The goal loop of \<^verbatim>\<open>interactive_menu\<close>:
  \<^verbatim>\<open>for (i=0;i<gcount;++i) { cost = run_dijkstra_personalized(g, src_idx, goal_idx[i], tmp_path, &tmp_len);
  if (cost < best_cost) { best_cost = cost; best_goal = goal_idx[i]; ... memcpy(best_path, tmp_path, ...); } }\<close>
  The state is \<open>(tmp_path, best_cost, best_goal, best_path)\<close>; the menu prints the
  no-path message when \<open>best_cost\<close> is still \<^verbatim>\<open>FLT_MAX\<close> at the end.\<close>

fun goal_loop ::
  "EmotionGraph \<Rightarrow> int \<Rightarrow> int list \<Rightarrow> int list \<times> rat \<times> int \<times> int list
     \<Rightarrow> fault + int list \<times> rat \<times> int \<times> int list" where
  "goal_loop g src [] st = Inr st"
| "goal_loop g src (gi # gs) (tmp_path, best_cost, best_goal, best_path) =
     (case run_dijkstra_personalized g src gi of
        Inl f \<Rightarrow> Inl f
      | Inr (cost, out) \<Rightarrow>
          (let tmp = (case out of None \<Rightarrow> tmp_path | Some p \<Rightarrow> p) in
           goal_loop g src gs
             (if cost < best_cost then (tmp, cost, gi, tmp)
              else (tmp, best_cost, best_goal, best_path))))"

definition plan_goals :: "EmotionGraph \<Rightarrow> int \<Rightarrow> int list \<Rightarrow> fault + int list \<times> rat \<times> int \<times> int list" where
  "plan_goals g src goal_idx = goal_loop g src goal_idx ([], FLT_MAX, - 1, [])"

section \<open>Persistence\<close>

text \<open>
  The file is a \<^typ>\<open>string\<close>, the characters written to or read from it.  Whether
  \<^verbatim>\<open>fopen\<close> succeeds is outside the model: \<^verbatim>\<open>save_graph\<close> is the content it writes
  when the file opens, \<^verbatim>\<open>load_graph\<close> the graph it builds from the content of a file
  that opens.
\<close>

abbreviation dquote :: char where
  "dquote \<equiv> CHR 0x22"

abbreviation backslash :: char where
  "backslash \<equiv> CHR 0x5C"

abbreviation newline :: char where
  "newline \<equiv> CHR 0x0A"

subsection \<open>Writing\<close>

text \<open>\<^verbatim>\<open>fwrite_quoted\<close>: a quote, the text with a backslash before every quote and
  backslash, a quote.\<close>

fun escape_chars :: "string \<Rightarrow> string" where
  "escape_chars [] = []"
| "escape_chars (c # cs) =
     (if c = dquote \<or> c = backslash then backslash # c # escape_chars cs
      else c # escape_chars cs)"

definition fwrite_quoted :: "string \<Rightarrow> string" where
  "fwrite_quoted s = dquote # escape_chars s @ [dquote]"

text \<open>The conversion \<^verbatim>\<open>%.3f\<close> of \<^verbatim>\<open>printf\<close>, applied to the exact value of the
  float (its promotion to \<^verbatim>\<open>double\<close> is exact): the value rounded to three decimals
  (a tie goes to the even neighbour), the sign of a negative value, the integer part, a
  point and three digits.  A digit \<open>d\<close> below ten is the character \<^verbatim>\<open>'0' + d\<close>.\<close>

definition digit_char :: "nat \<Rightarrow> char" where
  "digit_char d = ''0123456789'' ! d"

function show_nat :: "nat \<Rightarrow> string" where
  "show_nat n = (if n < 10 then [digit_char n] else show_nat (n div 10) @ [digit_char (n mod 10)])"
  by pat_completeness auto
termination
  by (relation "measure id") auto

definition fmt_f3 :: "rat \<Rightarrow> string" where
  "fmt_f3 x =
     (let m = nat (round_half_even (\<bar>x\<bar> * 1000)) in
      (if x < 0 then [CHR ''-''] else []) @ show_nat (m div 1000) @ [CHR ''.'']
        @ [digit_char (m div 100 mod 10), digit_char (m div 10 mod 10), digit_char (m mod 10)])"

text \<open>The first loop of \<^verbatim>\<open>save_graph\<close>: the \<^verbatim>\<open>NODE\<close> line of a node and its
  \<^verbatim>\<open>TIP\<close> lines.\<close>

definition node_line :: "EmotionNode \<Rightarrow> string" where
  "node_line n =
     ''NODE '' @ name n @ '' '' @ fmt_f3 (valence n) @ '' '' @ fmt_f3 (baseline_intensity n)
       @ [newline]"

definition tip_line :: "EmotionNode \<Rightarrow> string \<Rightarrow> string" where
  "tip_line n t = ''TIP '' @ name n @ '' '' @ fwrite_quoted t @ [newline]"

definition save_node :: "EmotionNode \<Rightarrow> string" where
  "save_node n = node_line n @ concat (map (tip_line n) (tips n))"

text \<open>The second loop: an \<^verbatim>\<open>EDGE\<close> line for every edge from index \<open>i\<close> to a higher
  index.  The name of the target is read from \<^verbatim>\<open>g->nodes[to]\<close>, outside the array
  when \<^verbatim>\<open>to\<close> is not an index.\<close>

definition edge_line :: "EmotionGraph \<Rightarrow> EmotionNode \<Rightarrow> Edge \<Rightarrow> string" where
  "edge_line g n e =
     ''EDGE '' @ name n @ '' '' @ name (g ! nat (to e)) @ '' '' @ fmt_f3 (weight e) @ '' ''
       @ (case procedure e of Some p \<Rightarrow> fwrite_quoted p | None \<Rightarrow> [dquote, dquote])
       @ [newline]"

fun save_edges :: "EmotionGraph \<Rightarrow> nat \<Rightarrow> EmotionNode \<Rightarrow> Edge list \<Rightarrow> fault + string" where
  "save_edges g i n [] = Inr []"
| "save_edges g i n (e # es) =
     (if int i < to e then
        (if int (length g) \<le> to e then Inl Out_Of_Bounds
         else (case save_edges g i n es of
                 Inl f \<Rightarrow> Inl f
               | Inr r \<Rightarrow> Inr (edge_line g n e @ r)))
      else save_edges g i n es)"

fun save_all_edges :: "EmotionGraph \<Rightarrow> (nat \<times> EmotionNode) list \<Rightarrow> fault + string" where
  "save_all_edges g [] = Inr []"
| "save_all_edges g ((i, n) # ins) =
     (case save_edges g i n (edges n) of
        Inl f \<Rightarrow> Inl f
      | Inr r \<Rightarrow>
          (case save_all_edges g ins of
             Inl f \<Rightarrow> Inl f
           | Inr rs \<Rightarrow> Inr (r @ rs)))"

definition save_graph :: "EmotionGraph \<Rightarrow> fault + string" where
  "save_graph g =
     (case save_all_edges g (enumerate 0 g) of
        Inl f \<Rightarrow> Inl f
      | Inr es \<Rightarrow> Inr (concat (map save_node g) @ es))"

subsection \<open>Reading\<close>

text \<open>\<^verbatim>\<open>parse_quoted\<close>, called on a non-\<^verbatim>\<open>NULL\<close> pointer: the decoded text (or
  \<^verbatim>\<open>NULL\<close>) and \<^verbatim>\<open>*endptr\<close>.  The loop stops at the end of the string, at a quote,
  or when the buffer holds \<^verbatim>\<open>MAX_LINE - 1\<close> characters; its second argument is the
  content of \<^verbatim>\<open>buf\<close>.\<close>

fun parse_loop :: "string \<Rightarrow> string \<Rightarrow> string \<times> string" where
  "parse_loop [] buf = (buf, [])"
| "parse_loop [c] buf = (if c = dquote then (buf, [c]) else (buf @ [c], []))"
| "parse_loop (c # d # ds) buf =
     (if c = dquote then (buf, c # d # ds)
      else if c = backslash then
        (if MAX_LINE - 1 \<le> length (buf @ [d]) then (buf @ [d], ds)
         else parse_loop ds (buf @ [d]))
      else
        (if MAX_LINE - 1 \<le> length (buf @ [c]) then (buf @ [c], d # ds)
         else parse_loop (d # ds) (buf @ [c])))"

definition parse_quoted :: "string \<Rightarrow> string option \<times> string" where
  "parse_quoted s =
     (case s of
        [] \<Rightarrow> (None, s)
      | c # cs \<Rightarrow>
          if c \<noteq> dquote then (None, s)
          else
            (case parse_loop cs [] of
               (buf, p) \<Rightarrow> (Some buf, case p of [] \<Rightarrow> [] | q # qs \<Rightarrow> if q = dquote then qs else p)))"

text \<open>\<^verbatim>\<open>isspace\<close> in the C locale; the skipping loop
  \<^verbatim>\<open>while (*p && isspace(*p)) ++p\<close>; \<^verbatim>\<open>strchr\<close> for the quote character.\<close>

definition isspace :: "char \<Rightarrow> bool" where
  "isspace c = (c \<in> set [CHR 0x20, CHR 0x09, CHR 0x0A, CHR 0x0B, CHR 0x0C, CHR 0x0D])"

definition skip_space :: "string \<Rightarrow> string" where
  "skip_space s = dropWhile isspace s"

definition strchr_dquote :: "string \<Rightarrow> string option" where
  "strchr_dquote s =
     (case dropWhile (\<lambda>c. c \<noteq> dquote) s of [] \<Rightarrow> None | q # qs \<Rightarrow> Some (q # qs))"

text \<open>The conversion \<^verbatim>\<open>%ks\<close> of \<^verbatim>\<open>sscanf\<close>: white space is skipped, then at most
  \<open>k\<close> characters that are not white space are read; the conversion fails when there is
  none.  The result is the word and the rest of the input.\<close>

definition scan_word :: "nat \<Rightarrow> string \<Rightarrow> (string \<times> string) option" where
  "scan_word k s =
     (let s' = skip_space s; w = take k (takeWhile (\<lambda>c. \<not> isspace c) s') in
      if w = [] then None else Some (w, drop (length w) s'))"

text \<open>Decimal numbers as \<^verbatim>\<open>strtod\<close> and the conversion \<^verbatim>\<open>%f\<close> of \<^verbatim>\<open>sscanf\<close>
  read them: white space, a sign, digits with an optional point, an optional exponent.
  \<open>scan_decimal\<close> gives the exact value of what was read and the rest of the input;
  \<^verbatim>\<open>strtod\<close> (hence \<^verbatim>\<open>atof\<close>) rounds it to \<^verbatim>\<open>double\<close>, \<^verbatim>\<open>%f\<close> to
  \<^verbatim>\<open>float\<close>.  The hexadecimal, infinity and not-a-number forms are not modelled: they
  are read as no number.\<close>

definition isdigit :: "char \<Rightarrow> bool" where
  "isdigit c = (c \<in> set ''0123456789'')"

definition digit_value :: "char \<Rightarrow> nat" where
  "digit_value c = length (takeWhile (\<lambda>d. d \<noteq> c) ''0123456789'')"

definition digits_value :: "string \<Rightarrow> nat" where
  "digits_value ds = fold (\<lambda>c acc. 10 * acc + digit_value c) ds 0"

definition scan_sign :: "string \<Rightarrow> bool \<times> string" where
  "scan_sign s =
     (case s of
        [] \<Rightarrow> (False, s)
      | c # cs \<Rightarrow>
          if c = CHR ''-'' then (True, cs) else if c = CHR ''+'' then (False, cs) else (False, s))"

definition scan_exponent :: "string \<Rightarrow> int \<times> string" where
  "scan_exponent s =
     (case s of
        [] \<Rightarrow> (0, s)
      | c # cs \<Rightarrow>
          if c = CHR ''e'' \<or> c = CHR ''E'' then
            (case scan_sign cs of
               (neg, r) \<Rightarrow>
                 (let ds = takeWhile isdigit r in
                  if ds = [] then (0, s)
                  else ((if neg then - int (digits_value ds) else int (digits_value ds)),
                        drop (length ds) r)))
          else (0, s))"

definition scan_decimal :: "string \<Rightarrow> (rat \<times> string) option" where
  "scan_decimal s =
     (case scan_sign (skip_space s) of
        (neg, s1) \<Rightarrow>
          (let ip = takeWhile isdigit s1;
               s2 = drop (length ip) s1;
               fp = (case s2 of [] \<Rightarrow> []
                     | c # cs \<Rightarrow> if c = CHR ''.'' then takeWhile isdigit cs else []);
               s3 = (case s2 of [] \<Rightarrow> []
                     | c # cs \<Rightarrow> if c = CHR ''.'' then drop (length fp) cs else s2)
           in
           if ip = [] \<and> fp = [] then None
           else
             (case scan_exponent s3 of
                (ex, s4) \<Rightarrow>
                  (let m = (of_nat (digits_value ip) + of_nat (digits_value fp) / 10 ^ length fp)
                             * (if 0 \<le> ex then 10 ^ nat ex else 1 / 10 ^ nat (- ex))
                   in Some (if neg then - m else m, s4)))))"

definition strtod :: "string \<Rightarrow> (rat \<times> string) option" where
  "strtod s = (case scan_decimal s of None \<Rightarrow> None | Some (v, r) \<Rightarrow> Some (f64 v, r))"

definition scan_float :: "string \<Rightarrow> (rat \<times> string) option" where
  "scan_float s = (case scan_decimal s of None \<Rightarrow> None | Some (v, r) \<Rightarrow> Some (f32 v, r))"

definition atof :: "string \<Rightarrow> rat" where
  "atof s = (case strtod s of None \<Rightarrow> 0 | Some (v, r) \<Rightarrow> v)"

text \<open>\<^verbatim>\<open>strtok\<close> with the delimiters blank and tab, and its continuations: the words
  between the delimiters.  The first argument is the word being read.\<close>

fun strtok_words :: "string \<Rightarrow> string \<Rightarrow> string list" where
  "strtok_words cur [] = (if cur = [] then [] else [cur])"
| "strtok_words cur (c # cs) =
     (if c = CHR 0x20 \<or> c = CHR 0x09 then
        (if cur = [] then strtok_words [] cs else cur # strtok_words [] cs)
      else strtok_words (cur @ [c]) cs)"

text \<open>The three branches of \<^verbatim>\<open>load_graph\<close>, each on the text after the keyword and
  the white space that follows it.  In the \<^verbatim>\<open>NODE\<close> branch the values that
  \<^verbatim>\<open>sscanf\<close> has read go to \<^verbatim>\<open>graph_add_node\<close>; then the second and third word of
  \<^verbatim>\<open>strtok\<close>, when present, overwrite valence and baseline of the node of that name
  (the \<^verbatim>\<open>double\<close> of \<^verbatim>\<open>atof\<close> is rounded to \<^verbatim>\<open>float\<close> by the assignment).\<close>

definition load_node :: "EmotionGraph \<Rightarrow> string \<Rightarrow> EmotionGraph" where
  "load_node g p =
     (case scan_word 47 p of
        None \<Rightarrow> g
      | Some (nm, r1) \<Rightarrow>
          (let val = (case scan_float r1 of None \<Rightarrow> 0 | Some (v, r) \<Rightarrow> v);
               base = (case scan_float r1 of
                         None \<Rightarrow> 5
                       | Some (v, r) \<Rightarrow> (case scan_float r of None \<Rightarrow> 5 | Some (b, r') \<Rightarrow> b));
               g1 = fst (graph_add_node g nm val base);
               idx = graph_find g1 nm
           in
           if idx = - 1 then g1
           else
             (case strtok_words [] p of
                tok # v # b # rest \<Rightarrow>
                  g1[nat idx := (g1 ! nat idx)\<lparr>valence := f32 (atof v),
                                                     baseline_intensity := f32 (atof b)\<rparr>]
              | [tok, v] \<Rightarrow> g1[nat idx := (g1 ! nat idx)\<lparr>valence := f32 (atof v)\<rparr>]
              | _ \<Rightarrow> g1)))"

definition load_tip :: "EmotionGraph \<Rightarrow> string \<Rightarrow> EmotionGraph" where
  "load_tip g p =
     (case scan_word 47 p of
        None \<Rightarrow> g
      | Some (emo, r) \<Rightarrow>
          (case strchr_dquote p of
             None \<Rightarrow> g
           | Some q \<Rightarrow>
               (case fst (parse_quoted q) of
                  None \<Rightarrow> g
                | Some tip \<Rightarrow> graph_add_tip g emo tip)))"

definition load_edge :: "EmotionGraph \<Rightarrow> string \<Rightarrow> EmotionGraph" where
  "load_edge g p =
     (case scan_word 47 p of
        None \<Rightarrow> g
      | Some (from, r1) \<Rightarrow>
          (case scan_word 47 r1 of
             None \<Rightarrow> g
           | Some (to', r2) \<Rightarrow>
               (let w = (case scan_float r2 of None \<Rightarrow> 1 | Some (v, r) \<Rightarrow> v);
                    proc = (case strchr_dquote p of None \<Rightarrow> None | Some q \<Rightarrow> fst (parse_quoted q))
                in graph_add_edge g from to' w proc)))"

text \<open>The body of the reading loop on one buffer that \<^verbatim>\<open>fgets\<close> has filled.\<close>

definition chop_newline :: "string \<Rightarrow> string" where
  "chop_newline line = (if line \<noteq> [] \<and> last line = newline then butlast line else line)"

definition load_line :: "EmotionGraph \<Rightarrow> string \<Rightarrow> EmotionGraph" where
  "load_line g line =
     (let p = skip_space (chop_newline line) in
      if p = [] \<or> hd p = CHR ''#'' then g
      else
        (case scan_word 31 p of
           None \<Rightarrow> g
         | Some (token, r) \<Rightarrow>
             if token = ''NODE'' then load_node g (skip_space (drop 4 p))
             else if token = ''TIP'' then load_tip g (skip_space (drop 3 p))
             else if token = ''EDGE'' then load_edge g (skip_space (drop 4 p))
             else g))"

text \<open>The buffers that the successive calls of \<^verbatim>\<open>fgets\<close> with size \<^verbatim>\<open>MAX_LINE\<close>
  return: each ends after a newline or when it holds \<^verbatim>\<open>MAX_LINE - 1\<close> characters.
  The first argument is the buffer being filled.\<close>

fun fgets_lines :: "string \<Rightarrow> string \<Rightarrow> string list" where
  "fgets_lines cur [] = (if cur = [] then [] else [cur])"
| "fgets_lines cur (c # cs) =
     (if c = newline \<or> length (cur @ [c]) = MAX_LINE - 1 then (cur @ [c]) # fgets_lines [] cs
      else fgets_lines (cur @ [c]) cs)"

definition load_graph :: "EmotionGraph \<Rightarrow> string \<Rightarrow> EmotionGraph" where
  "load_graph g content = fold (\<lambda>line h. load_line h line) (fgets_lines [] content) g"

section \<open>Observations used in the statements\<close>

text \<open>The edges of the node of a given name (none when there is no such node), and the
  number of edges of the whole graph.\<close>

definition node_edges :: "EmotionGraph \<Rightarrow> string \<Rightarrow> Edge list" where
  "node_edges g nm = (let i = graph_find g nm in if i = - 1 then [] else edges (g ! nat i))"

definition edge_total :: "EmotionGraph \<Rightarrow> nat" where
  "edge_total g = sum_list (map (\<lambda>n. length (edges n)) g)"

text \<open>\<open>n\<close> identical calls of \<^verbatim>\<open>graph_add_edge\<close> in a row.\<close>

definition add_edge_times ::
  "nat \<Rightarrow> EmotionGraph \<Rightarrow> string \<Rightarrow> string \<Rightarrow> rat \<Rightarrow> string option \<Rightarrow> EmotionGraph" where
  "add_edge_times n g a b w p = ((\<lambda>h. graph_add_edge h a b w p) ^^ n) g"

text \<open>The edges of the graph as a relation on indices, and reachability along them.\<close>

definition edge_rel :: "EmotionGraph \<Rightarrow> (int \<times> int) set" where
  "edge_rel g = set (concat (map (\<lambda>(u, n). map (\<lambda>e. (int u, to e)) (edges n)) (enumerate 0 g)))"

definition reachable :: "EmotionGraph \<Rightarrow> int \<Rightarrow> int \<Rightarrow> bool" where
  "reachable g src v = ((src, v) \<in> (edge_rel g)\<^sup>*)"

text \<open>Every stored \<^verbatim>\<open>to\<close> is an index of the node array (what \<^verbatim>\<open>graph_add_edge\<close>
  stores always is).\<close>

definition targets_in_range :: "EmotionGraph \<Rightarrow> bool" where
  "targets_in_range g =
     list_all (\<lambda>n. list_all (\<lambda>e. 0 \<le> to e \<and> to e < int (length g)) (edges n)) g"

text \<open>The chain of four nodes of valence \<open>val\<close>, built with \<^verbatim>\<open>graph_add_node\<close> and
  \<^verbatim>\<open>graph_add_edge\<close>; a graph whose node calm has no edge; a graph whose edge from sad
  to calm has a procedure and whose node calm has a tip.\<close>

definition chain_graph :: "rat \<Rightarrow> rat \<Rightarrow> EmotionGraph" where
  "chain_graph val base =
     (let g = fst (graph_add_node graph_new ''A'' val base);
          g = fst (graph_add_node g ''B'' val base);
          g = fst (graph_add_node g ''C'' val base);
          g = fst (graph_add_node g ''D'' val base);
          g = graph_add_edge g ''A'' ''B'' 1 None;
          g = graph_add_edge g ''B'' ''C'' 1 None
      in graph_add_edge g ''C'' ''D'' 1 None)"


definition lonely_graph :: EmotionGraph where
  "lonely_graph =
     graph_add_edge (fst (graph_add_node (fst (graph_add_node (fst (graph_add_node graph_new
        ''sad'' (- 8 / 10) 6)) ''lonely'' (- 5 / 10) 5)) ''calm'' (6 / 10) 3)) ''sad'' ''lonely'' 2 None"

definition tipped_graph :: EmotionGraph where
  "tipped_graph =
     graph_add_tip (graph_add_edge graph_new ''sad'' ''calm'' 2 (Some ''breathe''))
       ''calm'' ''song''"

text \<open>The invariant of the search: a node with a tentative cost other than
  \<^verbatim>\<open>FLT_MAX\<close> can be reached from the source.\<close>

definition dijkstra_inv :: "EmotionGraph \<Rightarrow> int \<Rightarrow> rat list \<Rightarrow> bool" where
  "dijkstra_inv g src dis =
     (length dis = length g \<and> (\<forall>v < length g. dis ! v \<noteq> FLT_MAX \<longrightarrow> reachable g src (int v)))"

text \<open>Saving a graph and loading the file into a fresh graph.\<close>

definition reload :: "EmotionGraph \<Rightarrow> fault + EmotionGraph" where
  "reload g =
     (case save_graph g of Inl f \<Rightarrow> Inl f | Inr content \<Rightarrow> Inr (load_graph graph_new content))"

text \<open>Two nodes and one call of \<^verbatim>\<open>graph_add_edge\<close> from the second node to the first,
  with an action; the file that \<^verbatim>\<open>save_graph\<close> writes for it.\<close>

definition action_graph :: EmotionGraph where
  "action_graph =
     graph_add_edge (fst (graph_add_node (fst (graph_add_node graph_new ''A'' 0 5)) ''B'' 0 5))
       ''B'' ''A'' 1 (Some ''go'')"

definition action_file :: string where
  "action_file =
     ''NODE A 0.000 5.000'' @ [newline] @ ''NODE B 0.000 5.000'' @ [newline]
       @ ''EDGE A B 1.000 '' @ [dquote, dquote, newline]"

text \<open>One call of \<^verbatim>\<open>graph_add_edge\<close> without a procedure on the empty graph; the file
  that \<^verbatim>\<open>save_graph\<close> writes for it.\<close>

definition plain_graph :: EmotionGraph where
  "plain_graph = graph_add_edge graph_new ''A'' ''B'' 1 None"

definition plain_file :: string where
  "plain_file =
     ''NODE A -0.500 5.000'' @ [newline] @ ''NODE B 0.000 5.000'' @ [newline]
       @ ''EDGE A B 1.000 '' @ [dquote, dquote, newline]"

text \<open>The node that \<^verbatim>\<open>graph_add_tip\<close> creates for a new emotion (valence
  \<^verbatim>\<open>-0.2f\<close>, baseline 5, no edges), with the tips \<open>ts\<close>.\<close>

definition fresh_tip_node :: "string \<Rightarrow> string list \<Rightarrow> EmotionNode" where
  "fresh_tip_node nm ts =
     \<lparr>name = nm, valence = f32 (- 2 / 10), baseline_intensity = 5, edges = [], tips = ts\<rparr>"



section \<open>Properties of the graph store\<close>

lemma find_from_cong: "map name xs = map name ys \<Longrightarrow> find_from xs nm i = find_from ys nm i"
proof (induction xs arbitrary: ys i)
  case Nil
  then show ?case by simp
next
  case (Cons x xs)
  then obtain y ys' where ys: "ys = y # ys'" by (cases ys) auto
  with Cons.prems have "name x = name y" and "map name xs = map name ys'" by simp_all
  with Cons.IH [of ys' "i + 1"] ys show ?case by simp
qed

lemma find_from_bounds:
  "0 \<le> i \<Longrightarrow> find_from xs nm i = - 1 \<or> (i \<le> find_from xs nm i \<and> find_from xs nm i < i + int (length xs))"
proof (induction xs arbitrary: i)
  case Nil
  then show ?case by simp
next
  case (Cons x xs)
  from Cons.IH [of "i + 1"] Cons.prems show ?case by auto
qed

lemma find_from_name:
  "0 \<le> i \<Longrightarrow> find_from xs nm i \<noteq> - 1 \<Longrightarrow> name (xs ! nat (find_from xs nm i - i)) = nm"
proof (induction xs arbitrary: i)
  case Nil
  then show ?case by simp
next
  case (Cons x xs)
  show ?case
  proof (cases "name x = nm")
    case True
    then show ?thesis by simp
  next
    case False
    with Cons.prems have ne: "find_from xs nm (i + 1) \<noteq> - 1" by simp
    from Cons.prems have i1: "0 \<le> i + 1" by simp
    from find_from_bounds [OF i1, of xs nm] ne have "i + 1 \<le> find_from xs nm (i + 1)" by auto
    then have "nat (find_from xs nm (i + 1) - i) = Suc (nat (find_from xs nm (i + 1) - (i + 1)))"
      by linarith
    with Cons.IH [OF i1 ne] False show ?thesis by simp
  qed
qed

lemma find_from_append:
  "0 \<le> i \<Longrightarrow> find_from (xs @ ys) nm i =
     (if find_from xs nm i \<noteq> - 1 then find_from xs nm i else find_from ys nm (i + int (length xs)))"
proof (induction xs arbitrary: i)
  case Nil
  then show ?case by simp
next
  case (Cons x xs)
  from Cons.prems have i1: "0 \<le> i + 1" by simp
  from Cons.IH [OF i1] Cons.prems show ?case by (auto simp: add.assoc)
qed

lemma graph_find_bounds: "graph_find g nm = - 1 \<or> (0 \<le> graph_find g nm \<and> nat (graph_find g nm) < length g)"
  using find_from_bounds [of 0 g nm] by (auto simp: graph_find_def)

lemma graph_find_name: "graph_find g nm \<noteq> - 1 \<Longrightarrow> name (g ! nat (graph_find g nm)) = nm"
  using find_from_name [of 0 g nm] by (simp add: graph_find_def)

lemma graph_find_cong: "map name g = map name g' \<Longrightarrow> graph_find g nm = graph_find g' nm"
  unfolding graph_find_def by (rule find_from_cong)

lemma graph_find_append:
  "graph_find (g @ h) nm =
     (if graph_find g nm \<noteq> - 1 then graph_find g nm else find_from h nm (int (length g)))"
  using find_from_append [of 0 g h nm] by (simp add: graph_find_def)

text \<open>What \<open>find_or_add\<close> establishes.\<close>

lemma find_or_add_old:
  assumes "graph_find g nm \<noteq> - 1"
  shows "find_or_add g nm a b = (g, graph_find g nm)"
  using assms by (simp add: find_or_add_def Let_def)

lemma find_or_add_new:
  assumes "graph_find g nm = - 1"
  shows "find_or_add g nm a b =
    (g @ [\<lparr>name = take (MAX_NAME_LEN - 1) nm, valence = a, baseline_intensity = b, edges = [], tips = []\<rparr>],
     int (length g))"
  using assms by (simp add: find_or_add_def graph_add_node_def Let_def)

lemma find_or_add_props:
  assumes len: "length nm < MAX_NAME_LEN" and foa: "find_or_add g nm a b = (g1, u)"
  shows "0 \<le> u" and "nat u < length g1" and "graph_find g1 nm = u" and "name (g1 ! nat u) = nm"
    and "take (length g) g1 = g" and "length g \<le> length g1"
    and "edges (g1 ! nat u) = node_edges g nm"
proof -
  have all: "0 \<le> u \<and> nat u < length g1 \<and> graph_find g1 nm = u \<and> name (g1 ! nat u) = nm
      \<and> take (length g) g1 = g \<and> length g \<le> length g1 \<and> edges (g1 ! nat u) = node_edges g nm"
  proof (cases "graph_find g nm = - 1")
    case True
    from len have tk: "take (MAX_NAME_LEN - 1) nm = nm" by (simp add: MAX_NAME_LEN_def)
    from foa have "(g @ [\<lparr>name = take (MAX_NAME_LEN - 1) nm, valence = a, baseline_intensity = b,
        edges = [], tips = []\<rparr>], int (length g)) = (g1, u)"
      by (simp only: find_or_add_new [OF True])
    with tk have g1: "g1 = g @ [\<lparr>name = nm, valence = a, baseline_intensity = b, edges = [], tips = []\<rparr>]"
      and u: "u = int (length g)" by auto
    have "graph_find g1 nm = u" unfolding g1 u using True by (simp add: graph_find_append)
    with g1 u True show ?thesis by (simp add: node_edges_def)
  next
    case False
    from foa have "(g, graph_find g nm) = (g1, u)" by (simp only: find_or_add_old [OF False])
    then have g1: "g1 = g" and u: "u = graph_find g nm" by auto
    from graph_find_bounds [of g nm] graph_find_name [OF False] False g1 u show ?thesis
      by (auto simp: node_edges_def Let_def)
  qed
  from all show "0 \<le> u" and "nat u < length g1" and "graph_find g1 nm = u" and "name (g1 ! nat u) = nm"
    and "take (length g) g1 = g" and "length g \<le> length g1"
    and "edges (g1 ! nat u) = node_edges g nm" by simp_all
qed

lemma find_or_add_keeps:
  assumes foa: "find_or_add g nm a b = (g1, u)" and old: "graph_find g m \<noteq> - 1"
  shows "graph_find g1 m = graph_find g m" and "g1 ! nat (graph_find g m) = g ! nat (graph_find g m)"
proof -
  have "graph_find g1 m = graph_find g m \<and> g1 ! nat (graph_find g m) = g ! nat (graph_find g m)"
  proof (cases "graph_find g nm = - 1")
    case True
    from foa have "(g @ [\<lparr>name = take (MAX_NAME_LEN - 1) nm, valence = a, baseline_intensity = b,
        edges = [], tips = []\<rparr>], int (length g)) = (g1, u)"
      by (simp only: find_or_add_new [OF True])
    then obtain x where g1: "g1 = g @ [x]" by auto
    from graph_find_bounds [of g m] old have "nat (graph_find g m) < length g" by auto
    with g1 old show ?thesis by (simp add: graph_find_append nth_append)
  next
    case False
    from foa have "(g, graph_find g nm) = (g1, u)" by (simp only: find_or_add_old [OF False])
    then show ?thesis by auto
  qed
  then show "graph_find g1 m = graph_find g m" and "g1 ! nat (graph_find g m) = g ! nat (graph_find g m)"
    by simp_all
qed

lemma map_name_push_edge: "map name (push_edge g i e) = map name g"
proof (rule nth_equalityI)
  show "length (map name (push_edge g i e)) = length (map name g)"
    by (simp add: push_edge_def)
next
  fix j
  assume "j < length (map name (push_edge g i e))"
  then have j: "j < length g" by (simp add: push_edge_def)
  then show "map name (push_edge g i e) ! j = map name g ! j"
    by (cases "j = nat i") (simp_all add: push_edge_def)
qed

lemma length_push_edge: "length (push_edge g i e) = length g"
  by (simp add: push_edge_def)

lemma nth_push_edge:
  "0 \<le> i \<Longrightarrow> nat i < length g \<Longrightarrow> j < length g \<Longrightarrow>
   edges (push_edge g i e ! j) = (if j = nat i then edges (g ! j) @ [e] else edges (g ! j))"
  by (simp add: push_edge_def nth_list_update)


lemma graph_find_push_edge: "graph_find (push_edge g i e) nm = graph_find g nm"
  by (rule graph_find_cong) (rule map_name_push_edge)

text \<open>The effect of one call that is not refused.\<close>

lemma node_edges_find_or_add:
  assumes foa: "find_or_add g nm a b = (g1, u)"
  shows "node_edges g1 m = node_edges g m"
proof (cases "graph_find g nm = - 1")
  case True
  define x where "x = \<lparr>name = take (MAX_NAME_LEN - 1) nm, valence = a, baseline_intensity = b,
        edges = [], tips = []\<rparr>"
  from foa have "(g @ [x], int (length g)) = (g1, u)"
    unfolding x_def by (simp only: find_or_add_new [OF True])
  then have g1: "g1 = g @ [x]" by auto
  show ?thesis
  proof (cases "graph_find g m = - 1")
    case True
    then show ?thesis unfolding g1 by (simp add: node_edges_def graph_find_append x_def)
  next
    case False
    with graph_find_bounds [of g m] have "nat (graph_find g m) < length g" by auto
    with False show ?thesis unfolding g1 by (simp add: node_edges_def graph_find_append nth_append)
  qed
next
  case False
  from foa have "(g, graph_find g nm) = (g1, u)" by (simp only: find_or_add_old [OF False])
  then show ?thesis by auto
qed

lemma graph_add_edge_effect:
  fixes g :: EmotionGraph and w :: rat and p :: "string option"
  assumes la: "length a < MAX_NAME_LEN" and lb: "length b < MAX_NAME_LEN"
    and ok: "\<not> (a = ''overwhelmed'' \<and> is_positive_goal_name b)"
  defines "g' \<equiv> graph_add_edge g a b w p"
  defines "u \<equiv> graph_find g' a" and "v \<equiv> graph_find g' b"
  shows "0 \<le> u" and "nat u < length g'" and "0 \<le> v" and "nat v < length g'"
    and "node_edges g' a = node_edges g a
           @ \<lparr>to = v, weight = clamp_weight w, procedure = p\<rparr>
           # (if a = b then [\<lparr>to = u, weight = clamp_weight w, procedure = None\<rparr>] else [])"
    and "node_edges g' b = node_edges g b
           @ (if a = b then [\<lparr>to = v, weight = clamp_weight w, procedure = p\<rparr>] else [])
           @ [\<lparr>to = u, weight = clamp_weight w, procedure = None\<rparr>]"
proof -
  obtain g1 u0 where f1: "find_or_add g a (- 1 / 2) 5 = (g1, u0)" by (cases "find_or_add g a (- 1 / 2) 5")
  obtain g2 v0 where f2: "find_or_add g1 b 0 5 = (g2, v0)" by (cases "find_or_add g1 b 0 5")
  note p1 = find_or_add_props [OF la f1]
  note p2 = find_or_add_props [OF lb f2]
  from p1 have a1: "graph_find g1 a \<noteq> - 1" by simp
  note k = find_or_add_keeps [OF f2 a1]
  define fwd where "fwd = \<lparr>to = v0, weight = clamp_weight w, procedure = p\<rparr>"
  define rev where "rev = \<lparr>to = u0, weight = clamp_weight w, procedure = None\<rparr>"
  have g': "g' = push_edge (push_edge g2 u0 fwd) v0 rev"
    using ok f1 f2 by (auto simp: g'_def graph_add_edge_def fwd_def rev_def)
  have u: "u = u0" using k(1) p1(3) by (simp add: u_def g' graph_find_push_edge)
  have v: "v = v0" using p2(3) by (simp add: v_def g' graph_find_push_edge)
  have u2: "nat u0 < length g2" using p1(2) p2(6) by simp
  have len: "length g' = length g2" by (simp add: g' length_push_edge)
  have eu: "edges (g2 ! nat u0) = node_edges g a" using k(2) p1(3) p1(7) by simp
  have ev: "edges (g2 ! nat v0) = node_edges g b"
    using p2(7) node_edges_find_or_add [OF f1, of b] by simp
  have uv: "u0 = v0 \<longleftrightarrow> a = b"
  proof
    assume "u0 = v0"
    with p2(4) k(2) p1(3) p1(4) show "a = b" by simp
  next
    assume "a = b"
    with p2(3) k(1) p1(3) show "u0 = v0" by simp
  qed
  show "0 \<le> u" using u p1(1) by simp
  show "nat u < length g'" using u u2 len by simp
  show "0 \<le> v" using v p2(1) by simp
  show "nat v < length g'" using v p2(2) len by simp
  have nu: "node_edges g' a = edges (g' ! nat u0)"
    using u p1(1) k(1) p1(3) by (simp add: node_edges_def u_def Let_def)
  have nv: "node_edges g' b = edges (g' ! nat v0)"
    using v p2(1) p2(3) by (simp add: node_edges_def v_def Let_def)
  have nn: "nat u0 = nat v0 \<longleftrightarrow> u0 = v0" using p1(1) p2(1) by auto
  have Eu: "edges (g' ! nat u0) = edges (g2 ! nat u0) @ fwd # (if a = b then [rev] else [])"
    unfolding g' using u2 p2(2) p1(1) p2(1) uv nn
    by (auto simp: nth_push_edge length_push_edge)
  have Ev: "edges (g' ! nat v0) = edges (g2 ! nat v0) @ (if a = b then [fwd] else []) @ [rev]"
    unfolding g' using u2 p2(2) p1(1) p2(1) uv nn
    by (auto simp: nth_push_edge length_push_edge)
  show "node_edges g' a = node_edges g a
           @ \<lparr>to = v, weight = clamp_weight w, procedure = p\<rparr>
           # (if a = b then [\<lparr>to = u, weight = clamp_weight w, procedure = None\<rparr>] else [])"
    by (simp only: nu Eu eu u v fwd_def rev_def)
  show "node_edges g' b = node_edges g b
           @ (if a = b then [\<lparr>to = v, weight = clamp_weight w, procedure = p\<rparr>] else [])
           @ [\<lparr>to = u, weight = clamp_weight w, procedure = None\<rparr>]"
    by (simp only: nv Ev ev u v fwd_def rev_def)
qed


lemma graph_find_add_edge_keeps:
  assumes old: "graph_find g m \<noteq> - 1"
  shows "graph_find (graph_add_edge g a b w p) m = graph_find g m"
proof (cases "a = ''overwhelmed'' \<and> is_positive_goal_name b")
  case True
  then show ?thesis by (simp add: graph_add_edge_def)
next
  case False
  obtain g1 u0 where f1: "find_or_add g a (- 1 / 2) 5 = (g1, u0)" by (cases "find_or_add g a (- 1 / 2) 5")
  obtain g2 v0 where f2: "find_or_add g1 b 0 5 = (g2, v0)" by (cases "find_or_add g1 b 0 5")
  from find_or_add_keeps(1) [OF f1 old] have k1: "graph_find g1 m = graph_find g m" .
  with old have "graph_find g1 m \<noteq> - 1" by simp
  from find_or_add_keeps(1) [OF f2 this] k1 have "graph_find g2 m = graph_find g m" by simp
  with False f1 f2 show ?thesis
    by (auto simp: graph_add_edge_def graph_find_push_edge)
qed

lemma clamp_weight_max: "clamp_weight w = max w 0"
  by (simp add: clamp_weight_def max_def)

text \<open>
  Claim C4.  A call of \<^verbatim>\<open>graph_add_edge\<close> with source \<^verbatim>\<open>"overwhelmed"\<close> and a target
  among happy, calm, hopeful and peaceful returns the graph as it was, whatever the graph,
  the weight and the procedure: no edge in either direction, the same number of edges,
  the same number of nodes, and neither endpoint is created when it was absent.  The
  function has no error result.
\<close>

theorem forbidden_transition_noop:
  assumes "to' \<in> {''happy'', ''calm'', ''hopeful'', ''peaceful''}"
  shows "graph_add_edge g ''overwhelmed'' to' w proc = g
    \<and> edge_total (graph_add_edge g ''overwhelmed'' to' w proc) = edge_total g
    \<and> length (graph_add_edge g ''overwhelmed'' to' w proc) = length g
    \<and> graph_find (graph_add_edge g ''overwhelmed'' to' w proc) ''overwhelmed'' = graph_find g ''overwhelmed''
    \<and> graph_find (graph_add_edge g ''overwhelmed'' to' w proc) to' = graph_find g to'"
proof -
  from assms have "is_positive_goal_name to'"
    by (auto simp: is_positive_goal_name_def)
  then have "graph_add_edge g ''overwhelmed'' to' w proc = g"
    by (simp add: graph_add_edge_def)
  then show ?thesis by simp
qed

theorem forbidden_transition_noop_witness:
  "graph_add_edge [] ''overwhelmed'' ''calm'' 2 (Some ''breathe'') = []
   \<and> edge_total (graph_add_edge [] ''overwhelmed'' ''calm'' 2 (Some ''breathe'')) = 0
   \<and> graph_find (graph_add_edge [] ''overwhelmed'' ''calm'' 2 (Some ''breathe'')) ''overwhelmed'' = - 1
   \<and> graph_find (graph_add_edge [] ''overwhelmed'' ''calm'' 2 (Some ''breathe'')) ''calm'' = - 1"
  using forbidden_transition_noop [of "''calm''" "[]" 2 "Some ''breathe''"]
  by (simp add: edge_total_def graph_find_def)

text \<open>
  Claim C5.  For names that fit the name buffer (fewer than \<^verbatim>\<open>MAX_NAME_LEN\<close>
  characters) and a pair that the forbidden-transition rule does not refuse,
  \<^verbatim>\<open>graph_add_edge(a, b, w, p)\<close> appends to the edges of \<open>a\<close> the edge to \<open>b\<close>
  with weight \<open>max w 0\<close> and procedure \<open>p\<close>, and to the edges of \<open>b\<close> the edge to
  \<open>a\<close> with the same weight \<open>max w 0\<close> and no procedure (for \<open>a = b\<close> both go to
  the one node, in this order).  The instance below has weight \<open>-5\<close>, stored as \<open>0\<close>.
\<close>

theorem add_edge_mirrors_clamped:
  fixes g :: EmotionGraph and w :: rat and p :: "string option"
  assumes "length a < MAX_NAME_LEN" and "length b < MAX_NAME_LEN"
    and "\<not> (a = ''overwhelmed'' \<and> is_positive_goal_name b)"
  defines "g' \<equiv> graph_add_edge g a b w p"
  shows "graph_find g' a \<noteq> - 1 \<and> graph_find g' b \<noteq> - 1
    \<and> node_edges g' a = node_edges g a
         @ \<lparr>to = graph_find g' b, weight = max w 0, procedure = p\<rparr>
         # (if a = b then [\<lparr>to = graph_find g' a, weight = max w 0, procedure = None\<rparr>] else [])
    \<and> node_edges g' b = node_edges g b
         @ (if a = b then [\<lparr>to = graph_find g' b, weight = max w 0, procedure = p\<rparr>] else [])
         @ [\<lparr>to = graph_find g' a, weight = max w 0, procedure = None\<rparr>]"
  using graph_add_edge_effect [OF assms(1-3), of g w p]
  unfolding g'_def clamp_weight_max by auto

theorem add_edge_mirrors_clamped_witness:
  "node_edges (graph_add_edge [] ''sad'' ''calm'' (- 5) (Some ''breathe'')) ''sad''
     = [\<lparr>to = 1, weight = 0, procedure = Some ''breathe''\<rparr>]
   \<and> node_edges (graph_add_edge [] ''sad'' ''calm'' (- 5) (Some ''breathe'')) ''calm''
     = [\<lparr>to = 0, weight = 0, procedure = None\<rparr>]"
proof -
  have f: "graph_find (graph_add_edge [] ''sad'' ''calm'' (- 5) (Some ''breathe'')) ''sad'' = 0"
      "graph_find (graph_add_edge [] ''sad'' ''calm'' (- 5) (Some ''breathe'')) ''calm'' = 1"
    by (simp_all add: graph_add_edge_def find_or_add_def graph_add_node_def graph_find_def
        is_positive_goal_name_def push_edge_def MAX_NAME_LEN_def)
  have e: "node_edges [] ''sad'' = []" "node_edges [] ''calm'' = []"
    by (simp_all add: node_edges_def graph_find_def)
  from add_edge_mirrors_clamped [of "''sad''" "''calm''" "[]" "- 5" "Some ''breathe''"]
  show ?thesis unfolding f e by (simp add: MAX_NAME_LEN_def)
qed

lemma concat_replicate_comm: "concat (replicate n xs) @ xs = xs @ concat (replicate n xs)"
  by (induction n) auto

text \<open>Repeated calls once both endpoints exist: the indices stay, the edges pile up.\<close>

lemma add_edge_times_present:
  fixes g :: EmotionGraph and w :: rat and p :: "string option"
  assumes la: "length a < MAX_NAME_LEN" and lb: "length b < MAX_NAME_LEN"
    and ok: "\<not> (a = ''overwhelmed'' \<and> is_positive_goal_name b)"
    and fa: "graph_find g a \<noteq> - 1" and fb: "graph_find g b \<noteq> - 1"
  defines "fwd \<equiv> \<lparr>to = graph_find g b, weight = clamp_weight w, procedure = p\<rparr>"
  defines "bwd \<equiv> \<lparr>to = graph_find g a, weight = clamp_weight w, procedure = None\<rparr>"
  shows "graph_find (add_edge_times n g a b w p) a = graph_find g a
    \<and> graph_find (add_edge_times n g a b w p) b = graph_find g b
    \<and> node_edges (add_edge_times n g a b w p) a
        = node_edges g a @ concat (replicate n (fwd # (if a = b then [bwd] else [])))
    \<and> node_edges (add_edge_times n g a b w p) b
        = node_edges g b @ concat (replicate n ((if a = b then [fwd] else []) @ [bwd]))"
proof (induction n)
  case 0
  show ?case by (simp add: add_edge_times_def)
next
  case (Suc n)
  define h where "h = add_edge_times n g a b w p"
  have step: "add_edge_times (Suc n) g a b w p = graph_add_edge h a b w p"
    by (simp add: add_edge_times_def h_def)
  from Suc have ha: "graph_find h a = graph_find g a" and hb: "graph_find h b = graph_find g b"
    and ea: "node_edges h a = node_edges g a @ concat (replicate n (fwd # (if a = b then [bwd] else [])))"
    and eb: "node_edges h b = node_edges g b @ concat (replicate n ((if a = b then [fwd] else []) @ [bwd]))"
    unfolding h_def by simp_all
  from ha fa have ka: "graph_find (graph_add_edge h a b w p) a = graph_find g a"
    by (simp add: graph_find_add_edge_keeps)
  from hb fb have kb: "graph_find (graph_add_edge h a b w p) b = graph_find g b"
    by (simp add: graph_find_add_edge_keeps)
  note eff = graph_add_edge_effect(5,6) [OF la lb ok, of h w p]
  have "node_edges (graph_add_edge h a b w p) a
      = node_edges g a @ concat (replicate (Suc n) (fwd # (if a = b then [bwd] else [])))"
    unfolding eff(1) ka kb ea by (simp add: fwd_def bwd_def concat_replicate_comm replicate_append_same)
  moreover have "node_edges (graph_add_edge h a b w p) b
      = node_edges g b @ concat (replicate (Suc n) ((if a = b then [fwd] else []) @ [bwd]))"
    unfolding eff(2) ka kb eb by (simp add: fwd_def bwd_def concat_replicate_comm replicate_append_same)
  ultimately show ?case unfolding step using ka kb by simp
qed


text \<open>
  Claim C9.  For a goal name \<open>P\<close> among happy, calm, hopeful and peaceful, the call
  \<^verbatim>\<open>graph_add_edge(P, "overwhelmed", w, proc)\<close> is not refused: it appends the edge from
  \<open>P\<close> to overwhelmed (weight \<open>max w 0\<close>, procedure \<open>proc\<close>) and, as its mirror, the edge
  from overwhelmed to \<open>P\<close> with the same weight and no procedure.  So the graph holds a
  direct edge from overwhelmed to \<open>P\<close>, which the call in the forward direction refuses
  (last conjunct of the instance below).
\<close>

theorem mirror_bypasses_policy:
  fixes g :: EmotionGraph and w :: rat and proc :: "string option"
  assumes goal: "P \<in> {''happy'', ''calm'', ''hopeful'', ''peaceful''}"
  defines "g' \<equiv> graph_add_edge g P ''overwhelmed'' w proc"
  shows "is_positive_goal_name P
    \<and> graph_find g' P \<noteq> - 1 \<and> graph_find g' ''overwhelmed'' \<noteq> - 1
    \<and> node_edges g' P = node_edges g P
         @ [\<lparr>to = graph_find g' ''overwhelmed'', weight = max w 0, procedure = proc\<rparr>]
    \<and> node_edges g' ''overwhelmed'' = node_edges g ''overwhelmed''
         @ [\<lparr>to = graph_find g' P, weight = max w 0, procedure = None\<rparr>]"
proof -
  from goal have pos: "is_positive_goal_name P" by (auto simp: is_positive_goal_name_def)
  from goal have ne: "P \<noteq> ''overwhelmed''" by auto
  from goal have lp: "length P < MAX_NAME_LEN" by (auto simp: MAX_NAME_LEN_def)
  have lo: "length ''overwhelmed'' < MAX_NAME_LEN" by (simp add: MAX_NAME_LEN_def)
  from ne have ok: "\<not> (P = ''overwhelmed'' \<and> is_positive_goal_name ''overwhelmed'')" by simp
  from graph_add_edge_effect [OF lp lo ok, of g w proc] ne pos
  show ?thesis unfolding g'_def clamp_weight_max by auto
qed

theorem mirror_bypasses_policy_witness:
  "node_edges (graph_add_edge [] ''happy'' ''overwhelmed'' 3 (Some ''rest'')) ''overwhelmed''
     = [\<lparr>to = 0, weight = 3, procedure = None\<rparr>]
   \<and> node_edges (graph_add_edge [] ''happy'' ''overwhelmed'' 3 (Some ''rest'')) ''happy''
     = [\<lparr>to = 1, weight = 3, procedure = Some ''rest''\<rparr>]
   \<and> graph_add_edge [] ''overwhelmed'' ''happy'' 3 (Some ''rest'') = []"
proof -
  have f: "graph_find (graph_add_edge [] ''happy'' ''overwhelmed'' 3 (Some ''rest'')) ''happy'' = 0"
      "graph_find (graph_add_edge [] ''happy'' ''overwhelmed'' 3 (Some ''rest'')) ''overwhelmed'' = 1"
    by (simp_all add: graph_add_edge_def find_or_add_def graph_add_node_def graph_find_def
        is_positive_goal_name_def push_edge_def MAX_NAME_LEN_def)
  have e: "node_edges [] ''happy'' = []" "node_edges [] ''overwhelmed'' = []"
    by (simp_all add: node_edges_def graph_find_def)
  have n: "graph_add_edge [] ''overwhelmed'' ''happy'' 3 (Some ''rest'') = []"
    by (simp add: graph_add_edge_def is_positive_goal_name_def)
  from mirror_bypasses_policy [of "''happy''" "[]" 3 "Some ''rest''"] n
  show ?thesis unfolding f e by simp
qed

text \<open>
  Claim C10.  \<^verbatim>\<open>graph_add_edge\<close> does not look for an existing edge.  For names that fit
  the name buffer and a pair that is not refused, \<open>n\<close> identical calls on any graph
  (with or without edges between the two nodes) append \<open>n\<close> copies of the forward edge
  to the edges of the source and \<open>n\<close> copies of the mirror edge to the edges of the
  target, after the edges that were there; for \<open>a = b\<close> the \<open>2 * n\<close> edges alternate on
  the one node.
\<close>

theorem add_edge_not_idempotent:
  fixes g :: EmotionGraph and w :: rat and p :: "string option" and n :: nat
  assumes la: "length a < MAX_NAME_LEN" and lb: "length b < MAX_NAME_LEN"
    and ok: "\<not> (a = ''overwhelmed'' \<and> is_positive_goal_name b)"
  defines "gn \<equiv> add_edge_times n g a b w p"
  defines "fwd \<equiv> \<lparr>to = graph_find gn b, weight = clamp_weight w, procedure = p\<rparr>"
  defines "bwd \<equiv> \<lparr>to = graph_find gn a, weight = clamp_weight w, procedure = None\<rparr>"
  shows "node_edges gn a = node_edges g a @ concat (replicate n (fwd # (if a = b then [bwd] else [])))
    \<and> node_edges gn b = node_edges g b @ concat (replicate n ((if a = b then [fwd] else []) @ [bwd]))
    \<and> length (node_edges gn a) = length (node_edges g a) + (if a = b then 2 * n else n)
    \<and> length (node_edges gn b) = length (node_edges g b) + (if a = b then 2 * n else n)"
proof -
  have main: "node_edges gn a = node_edges g a @ concat (replicate n (fwd # (if a = b then [bwd] else [])))
    \<and> node_edges gn b = node_edges g b @ concat (replicate n ((if a = b then [fwd] else []) @ [bwd]))"
  proof (cases n)
    case 0
    then show ?thesis by (simp add: gn_def add_edge_times_def)
  next
    case (Suc m)
    define g1 where "g1 = graph_add_edge g a b w p"
    define F where "F = (\<lambda>h. graph_add_edge h a b w p)"
    have "(F ^^ Suc m) g = (F ^^ m) (F g)" by (simp add: funpow_swap1)
    then have gn: "gn = add_edge_times m g1 a b w p"
      unfolding gn_def g1_def add_edge_times_def Suc F_def .
    note eff = graph_add_edge_effect [OF la lb ok, of g w p, folded g1_def]
    from eff(1) have fa: "graph_find g1 a \<noteq> - 1" by simp
    from eff(3) have fb: "graph_find g1 b \<noteq> - 1" by simp
    note pr = add_edge_times_present [OF la lb ok fa fb, where w = w and p = p and n = m, folded gn]
    from pr have ia: "graph_find gn a = graph_find g1 a" and ib: "graph_find gn b = graph_find g1 b"
      by simp_all
    from pr have ea: "node_edges gn a = node_edges g1 a @ concat (replicate m (fwd # (if a = b then [bwd] else [])))"
      and eb: "node_edges gn b = node_edges g1 b @ concat (replicate m ((if a = b then [fwd] else []) @ [bwd]))"
      unfolding fwd_def bwd_def ia ib by simp_all
    from eff(5) have ea1: "node_edges g1 a = node_edges g a @ fwd # (if a = b then [bwd] else [])"
      unfolding fwd_def bwd_def ia ib .
    from eff(6) have eb1: "node_edges g1 b = node_edges g b @ (if a = b then [fwd] else []) @ [bwd]"
      unfolding fwd_def bwd_def ia ib .
    show ?thesis unfolding ea eb ea1 eb1 Suc by simp
  qed
  have "length (concat (replicate n (fwd # (if a = b then [bwd] else [])))) = (if a = b then 2 * n else n)"
    by (induction n) auto
  moreover have "length (concat (replicate n ((if a = b then [fwd] else []) @ [bwd]))) = (if a = b then 2 * n else n)"
    by (induction n) auto
  ultimately show ?thesis using main by simp
qed

theorem add_edge_not_idempotent_witness:
  "node_edges (add_edge_times 2 [] ''sad'' ''calm'' 1 None) ''sad''
     = [\<lparr>to = 1, weight = 1, procedure = None\<rparr>, \<lparr>to = 1, weight = 1, procedure = None\<rparr>]
   \<and> node_edges (add_edge_times 2 [] ''sad'' ''calm'' 1 None) ''calm''
     = [\<lparr>to = 0, weight = 1, procedure = None\<rparr>, \<lparr>to = 0, weight = 1, procedure = None\<rparr>]"
proof -
  have f: "graph_find (add_edge_times 2 [] ''sad'' ''calm'' 1 None) ''sad'' = 0"
      "graph_find (add_edge_times 2 [] ''sad'' ''calm'' 1 None) ''calm'' = 1"
    by (simp_all add: add_edge_times_def numeral_2_eq_2 graph_add_edge_def find_or_add_def
        graph_add_node_def graph_find_def is_positive_goal_name_def push_edge_def MAX_NAME_LEN_def)
  have e: "node_edges [] ''sad'' = []" "node_edges [] ''calm'' = []"
    by (simp_all add: node_edges_def graph_find_def)
  have c: "clamp_weight 1 = 1" by (simp add: clamp_weight_def)
  from add_edge_not_idempotent [where a = "''sad''" and b = "''calm''" and g = "[]" and n = 2 and w = 1
      and p = None]
  show ?thesis unfolding f e c by (simp add: MAX_NAME_LEN_def numeral_2_eq_2)
qed

section \<open>Properties of the planner\<close>

lemma select_min_fold:
  "fold (select_step dis visited) [0..<k] (- 1, FLT_MAX) = (u, best) \<Longrightarrow>
     best \<le> FLT_MAX \<and> (u = - 1 \<or> (0 \<le> u \<and> nat u < k \<and> dis ! nat u = best \<and> best < FLT_MAX))"
proof (induction k arbitrary: u best)
  case 0
  then show ?case by simp
next
  case (Suc k)
  obtain u0 b0 where f: "fold (select_step dis visited) [0..<k] (- 1, FLT_MAX) = (u0, b0)"
    by (cases "fold (select_step dis visited) [0..<k] (- 1, FLT_MAX)")
  from Suc.IH [OF f] have ih: "b0 \<le> FLT_MAX"
    "u0 = - 1 \<or> (0 \<le> u0 \<and> nat u0 < k \<and> dis ! nat u0 = b0 \<and> b0 < FLT_MAX)" by simp_all
  from Suc.prems f have "select_step dis visited k (u0, b0) = (u, best)" by simp
  with ih show ?case by (auto simp: select_step_def split: if_splits)
qed

lemma select_min_cases:
  assumes "fst (select_min dis visited n) = u"
  shows "u = - 1 \<or> (0 \<le> u \<and> nat u < n \<and> dis ! nat u < FLT_MAX)"
proof -
  obtain u' best where f: "fold (select_step dis visited) [0..<n] (- 1, FLT_MAX) = (u', best)"
    by (cases "fold (select_step dis visited) [0..<n] (- 1, FLT_MAX)")
  with assms have "u' = u" by (simp add: select_min_def)
  with select_min_fold [OF f] show ?thesis by auto
qed

lemma edge_rel_step:
  "u < length g \<Longrightarrow> e \<in> set (edges (g ! u)) \<Longrightarrow> reachable g src (int u)
     \<Longrightarrow> reachable g src (to e)"
  unfolding reachable_def
  by (rule rtrancl_into_rtrancl) (auto simp: edge_rel_def in_set_enumerate_eq intro!: bexI [of _ "(u, g ! u)"])

lemma targets_in_rangeD:
  "targets_in_range g \<Longrightarrow> u < length g \<Longrightarrow> e \<in> set (edges (g ! u))
     \<Longrightarrow> 0 \<le> to e \<and> to e < int (length g)"
  by (auto simp: targets_in_range_def list_all_iff)

lemma relax_edge_inv:
  assumes inv: "dijkstra_inv g src (fst dp)" and u: "u < length g" and e: "e \<in> set (edges (g ! u))"
    and ru: "reachable g src (int u)" and ok: "targets_in_range g"
  shows "\<exists>dp'. relax_edge g u visited dp e = Inr dp' \<and> dijkstra_inv g src (fst dp')"
proof -
  from targets_in_rangeD [OF ok u e] have v: "0 \<le> to e" "to e < int (length g)" by simp_all
  from edge_rel_step [OF u e ru] have rv: "reachable g src (to e)" .
  have "dijkstra_inv g src ((fst dp)[nat (to e) := x])" for x
    using inv rv v by (auto simp: dijkstra_inv_def nth_list_update)
  with inv v show ?thesis by (cases dp) (auto simp: relax_edge_def Let_def)
qed

lemma relax_edges_inv:
  assumes u: "u < length g" and ru: "reachable g src (int u)" and ok: "targets_in_range g"
  shows "dijkstra_inv g src (fst dp) \<Longrightarrow> set es \<subseteq> set (edges (g ! u))
     \<Longrightarrow> \<exists>dp'. relax_edges g u visited dp es = Inr dp' \<and> dijkstra_inv g src (fst dp')"
proof (induction es arbitrary: dp)
  case Nil
  then show ?case by simp
next
  case (Cons e es)
  from Cons.prems have e: "e \<in> set (edges (g ! u))" by simp
  from relax_edge_inv [OF Cons.prems(1) u e ru ok, of visited]
  obtain dp1 where r: "relax_edge g u visited dp e = Inr dp1" and i: "dijkstra_inv g src (fst dp1)"
    by blast
  from Cons.prems have "set es \<subseteq> set (edges (g ! u))" by simp
  from Cons.IH [OF i this] r show ?case by simp
qed

lemma dijkstra_loop_inv:
  assumes ok: "targets_in_range g"
  shows "dijkstra_inv g src dis
     \<Longrightarrow> \<exists>dis' visited' prev'. dijkstra_loop k g dest (dis, visited, prev) = Inr (dis', visited', prev')
           \<and> dijkstra_inv g src dis'"
proof (induction k arbitrary: dis visited prev)
  case 0
  then show ?case by simp
next
  case (Suc k)
  define u where "u = fst (select_min dis visited (length g))"
  from select_min_cases [of dis visited "length g" u]
  have uc: "u = - 1 \<or> (0 \<le> u \<and> nat u < length g \<and> dis ! nat u < FLT_MAX)" by (simp add: u_def)
  show ?case
  proof (cases "u = - 1 \<or> u = dest")
    case True
    with Suc.prems show ?thesis by (auto simp: u_def [symmetric] Let_def)
  next
    case False
    with uc have u: "0 \<le> u" "nat u < length g" "dis ! nat u \<noteq> FLT_MAX" by auto
    from u(1) obtain m where m: "u = int m" by (auto intro: nonneg_int_cases)
    from Suc.prems u(2,3) have "reachable g src (int m)" unfolding dijkstra_inv_def m by simp
    then have ru: "reachable g src (int (nat u))" unfolding m by simp
    from Suc.prems have i0: "dijkstra_inv g src (fst (dis, prev))" by simp
    from relax_edges_inv [OF u(2) ru ok i0, of "edges (g ! nat u)" "visited[nat u := True]"]
    obtain dis1 prev1 where
      r: "relax_edges g (nat u) (visited[nat u := True]) (dis, prev) (edges (g ! nat u)) = Inr (dis1, prev1)"
      and i: "dijkstra_inv g src dis1" by auto
    from Suc.IH [OF i, of "visited[nat u := True]" prev1] False r show ?thesis
      by (simp add: u_def [symmetric] Let_def)
  qed
qed

lemma unreachable_or_negative:
  "(src < 0 \<or> dest < 0 \<longrightarrow> run_dijkstra_personalized g src dest = Inr (FLT_MAX, None))
   \<and> (targets_in_range g \<and> 0 \<le> src \<and> src < int (length g) \<and> 0 \<le> dest \<and> dest < int (length g)
        \<and> \<not> reachable g src dest
      \<longrightarrow> run_dijkstra_personalized g src dest = Inr (FLT_MAX, None))"
proof (intro conjI impI)
  assume "src < 0 \<or> dest < 0"
  then show "run_dijkstra_personalized g src dest = Inr (FLT_MAX, None)"
    by (auto simp: run_dijkstra_personalized_def)
next
  assume a: "targets_in_range g \<and> 0 \<le> src \<and> src < int (length g) \<and> 0 \<le> dest \<and> dest < int (length g)
        \<and> \<not> reachable g src dest"
  define n where "n = length g"
  from a obtain s where s: "src = int s" by (auto intro: nonneg_int_cases)
  from a s have sl: "s < length g" by simp
  have "reachable g src (int s)" by (simp add: reachable_def s)
  with sl have i0: "dijkstra_inv g src ((replicate n FLT_MAX)[nat src := 0])"
    unfolding s by (auto simp: dijkstra_inv_def n_def nth_list_update)
  from a have ok: "targets_in_range g" by simp
  from dijkstra_loop_inv [OF ok i0, of n dest "replicate n False" "replicate n (- 1)"]
  obtain dis visited prev where
    l: "dijkstra_loop n g dest ((replicate n FLT_MAX)[nat src := 0], replicate n False, replicate n (- 1))
          = Inr (dis, visited, prev)"
    and i: "dijkstra_inv g src dis" by blast
  from a have "nat dest < length g" "int (nat dest) = dest" by auto
  with i a have "dis ! nat dest = FLT_MAX" by (auto simp: dijkstra_inv_def)
  with a l show "run_dijkstra_personalized g src dest = Inr (FLT_MAX, None)"
    by (simp add: run_dijkstra_personalized_def n_def [symmetric] Let_def)
qed


lemma goal_loop_no_path:
  "\<forall>d \<in> set goals. run_dijkstra_personalized g src d = Inr (FLT_MAX, None)
     \<Longrightarrow> goal_loop g src goals (tmp, FLT_MAX, bg, bp) = Inr (tmp, FLT_MAX, bg, bp)"
  by (induction goals) simp_all

lemmas graph_eval_defs = graph_new_def graph_add_node_def graph_find_def graph_add_edge_def
  find_or_add_def push_edge_def is_positive_goal_name_def clamp_weight_def MAX_NAME_LEN_def
  graph_add_tip_def

lemma floor_rat_numeral_div:
  "\<lfloor>(numeral a :: rat) / numeral b\<rfloor> = numeral a div numeral b"
  "\<lfloor>- ((numeral a :: rat) / numeral b)\<rfloor> = - numeral a div numeral b"
  "\<lfloor>(1 :: rat) / numeral b\<rfloor> = 1 div numeral b"
  "\<lfloor>- ((1 :: rat) / numeral b)\<rfloor> = - 1 div numeral b"
  using floor_divide_of_int_eq [of "numeral a" "numeral b", where ?'a = rat]
    floor_divide_of_int_eq [of "- numeral a" "numeral b", where ?'a = rat]
    floor_divide_of_int_eq [of 1 "numeral b", where ?'a = rat]
    floor_divide_of_int_eq [of "- 1" "numeral b", where ?'a = rat]
  by simp_all

lemmas f32_eval_defs = f32_def f64_def fadd_def fsub_def fmul_def round_binary_def floor_log2_def
  pow2_def round_half_even_def floor_rat_numeral_div ceiling_def Let_def

lemma f32_constants:
  "f32 (85 / 100) = 7130317 / 8388608"
  "f32 (8 / 10) = 13421773 / 16777216"
  "f32 (5 / 100) = 13421773 / 268435456"
  "f32 (- (2 / 10)) = - (13421773 / 67108864)"
  by (simp_all add: f32_eval_defs)

lemmas dijkstra_eval_defs = run_dijkstra_personalized_def select_min_def select_step_def
  relax_edge_def adjusted_weight_def tip_factor_def procedure_factor_def valence_bias_def
  FLT_MAX_def f32_eval_defs

lemma chain_graph_value:
  "chain_graph val base =
    [\<lparr>name = ''A'', valence = val, baseline_intensity = base,
        edges = [\<lparr>to = 1, weight = 1, procedure = None\<rparr>], tips = []\<rparr>,
     \<lparr>name = ''B'', valence = val, baseline_intensity = base,
        edges = [\<lparr>to = 0, weight = 1, procedure = None\<rparr>, \<lparr>to = 2, weight = 1, procedure = None\<rparr>],
        tips = []\<rparr>,
     \<lparr>name = ''C'', valence = val, baseline_intensity = base,
        edges = [\<lparr>to = 1, weight = 1, procedure = None\<rparr>, \<lparr>to = 3, weight = 1, procedure = None\<rparr>],
        tips = []\<rparr>,
     \<lparr>name = ''D'', valence = val, baseline_intensity = base,
        edges = [\<lparr>to = 2, weight = 1, procedure = None\<rparr>], tips = []\<rparr>]"
  by (simp add: chain_graph_def graph_eval_defs)



text \<open>The valence bias vanishes at valence 1, where the cost of the chain is 3.\<close>

lemma chain_cost_at_valence_one:
  "run_dijkstra_personalized (chain_graph 1 base) (graph_find (chain_graph 1 base) ''A'')
      (graph_find (chain_graph 1 base) ''D'') = Inr (3, Some [0, 1, 2, 3])"
  unfolding chain_graph_value by (simp add: graph_find_def dijkstra_eval_defs)

lemma tipped_graph_value:
  "tipped_graph =
    [\<lparr>name = ''sad'', valence = - 1 / 2, baseline_intensity = 5,
        edges = [\<lparr>to = 1, weight = 2, procedure = Some ''breathe''\<rparr>], tips = []\<rparr>,
     \<lparr>name = ''calm'', valence = 0, baseline_intensity = 5,
        edges = [\<lparr>to = 0, weight = 2, procedure = None\<rparr>], tips = [''song'']\<rparr>]"
  by (simp add: tipped_graph_def graph_eval_defs)

text \<open>The planner on the graph whose only edge pair has a procedure and leads to a node
  with a tip.\<close>

lemma tipped_run:
  "run_dijkstra_personalized tipped_graph 0 1 = Inr (5419041 / 4194304, Some [0, 1])"
  unfolding tipped_graph_value by (simp add: dijkstra_eval_defs)

text \<open>The order of the two discounts is not immaterial: at weight 13 the two orders give
  different floats.\<close>

lemma factor_order_matters:
  "fmul (fmul 13 (f32 (85 / 100))) (f32 (8 / 10)) = 2317353 / 262144"
  "fmul (fmul 13 (f32 (8 / 10))) (f32 (85 / 100)) = 9269413 / 1048576"
  by (simp_all add: f32_eval_defs)






lemma lonely_graph_value:
  "lonely_graph =
    [\<lparr>name = ''sad'', valence = - 8 / 10, baseline_intensity = 6,
        edges = [\<lparr>to = 1, weight = 2, procedure = None\<rparr>], tips = []\<rparr>,
     \<lparr>name = ''lonely'', valence = - 5 / 10, baseline_intensity = 5,
        edges = [\<lparr>to = 0, weight = 2, procedure = None\<rparr>], tips = []\<rparr>,
     \<lparr>name = ''calm'', valence = 6 / 10, baseline_intensity = 3, edges = [], tips = []\<rparr>]"
  by (simp add: lonely_graph_def graph_eval_defs)

lemma lonely_graph_edge_rel: "edge_rel lonely_graph = {(0, 1), (1, 0)}"
  unfolding edge_rel_def lonely_graph_value by simp

lemma lonely_graph_unreachable: "\<not> reachable lonely_graph 0 2"
proof
  assume "reachable lonely_graph 0 2"
  then have "(0, 2) \<in> {(0, 1), (1, 0 :: int)}\<^sup>*"
    by (simp add: reachable_def lonely_graph_edge_rel)
  then have "(2 :: int) \<in> {0, 1}"
    by (induction rule: rtrancl_induct) auto
  then show False by simp
qed

text \<open>
  Claim C7, as stated: an invalid source index would fail fast, distinct from the outcome
  for an unreachable goal.  The index \<open>-1\<close> that \<^verbatim>\<open>graph_find\<close> gives for an unknown name
  and an unreachable goal have the same outcome: \<^verbatim>\<open>FLT_MAX\<close> and no path.
\<close>

theorem invalid_index_reported_as_no_path:
  "run_dijkstra_personalized lonely_graph (graph_find lonely_graph ''nobody'') 2 = Inr (FLT_MAX, None)
   \<and> run_dijkstra_personalized lonely_graph (graph_find lonely_graph ''sad'') 2 = Inr (FLT_MAX, None)"
  unfolding lonely_graph_value by (simp add: graph_find_def dijkstra_eval_defs)

text \<open>
  Claim C7, amended.  A negative source or destination index returns \<^verbatim>\<open>FLT_MAX\<close>
  without a path, by the guard at the head of the function.  For indices of the node
  array and a destination that cannot be reached from the source, the function returns
  \<^verbatim>\<open>FLT_MAX\<close> as well, with no access outside an array and without writing a path.
  When no goal of the list can be reached, the goal loop ends with \<open>best_cost\<close> equal to
  \<^verbatim>\<open>FLT_MAX\<close>, no goal and no path.  The two outcomes are the same value.
\<close>

theorem no_path_and_invalid_index:
  "(src < 0 \<or> dest < 0 \<longrightarrow> run_dijkstra_personalized g src dest = Inr (FLT_MAX, None))
   \<and> (targets_in_range g \<and> 0 \<le> src \<and> src < int (length g) \<and> 0 \<le> dest \<and> dest < int (length g)
        \<and> \<not> reachable g src dest
      \<longrightarrow> run_dijkstra_personalized g src dest = Inr (FLT_MAX, None))
   \<and> (targets_in_range g \<and> 0 \<le> src \<and> src < int (length g)
        \<and> list_all (\<lambda>d. 0 \<le> d \<and> d < int (length g) \<and> \<not> reachable g src d) goals
      \<longrightarrow> plan_goals g src goals = Inr ([], FLT_MAX, - 1, []))"
proof (intro conjI impI)
  assume "src < 0 \<or> dest < 0"
  with unreachable_or_negative [of src dest g]
  show "run_dijkstra_personalized g src dest = Inr (FLT_MAX, None)" by blast
next
  assume "targets_in_range g \<and> 0 \<le> src \<and> src < int (length g) \<and> 0 \<le> dest \<and> dest < int (length g)
        \<and> \<not> reachable g src dest"
  with unreachable_or_negative [of src dest g]
  show "run_dijkstra_personalized g src dest = Inr (FLT_MAX, None)" by blast
next
  assume a: "targets_in_range g \<and> 0 \<le> src \<and> src < int (length g)
        \<and> list_all (\<lambda>d. 0 \<le> d \<and> d < int (length g) \<and> \<not> reachable g src d) goals"
  have "\<forall>d \<in> set goals. run_dijkstra_personalized g src d = Inr (FLT_MAX, None)"
  proof
    fix d assume "d \<in> set goals"
    with a have "0 \<le> d \<and> d < int (length g) \<and> \<not> reachable g src d" by (auto simp: list_all_iff)
    with a unreachable_or_negative [of src d g]
    show "run_dijkstra_personalized g src d = Inr (FLT_MAX, None)" by blast
  qed
  then show "plan_goals g src goals = Inr ([], FLT_MAX, - 1, [])"
    unfolding plan_goals_def by (rule goal_loop_no_path)
qed

theorem no_path_and_invalid_index_witness:
  "run_dijkstra_personalized lonely_graph (- 1) 2 = Inr (FLT_MAX, None)
   \<and> run_dijkstra_personalized lonely_graph 0 2 = Inr (FLT_MAX, None)
   \<and> plan_goals lonely_graph 0 [2] = Inr ([], FLT_MAX, - 1, [])"
proof -
  have t: "targets_in_range lonely_graph"
    unfolding lonely_graph_value by (simp add: targets_in_range_def)
  have l: "length lonely_graph = 3" unfolding lonely_graph_value by simp
  from no_path_and_invalid_index [of "- 1" 2 lonely_graph "[2]"]
    no_path_and_invalid_index [of 0 2 lonely_graph "[2]"] t l lonely_graph_unreachable
  show ?thesis by simp
qed

section \<open>Properties of the persistence codec\<close>











subsection \<open>Saving and loading concrete graphs\<close>

lemmas save_eval_defs = save_graph_def save_node_def node_line_def tip_line_def edge_line_def

lemmas load_eval_defs = load_line_def chop_newline_def skip_space_def isspace_def scan_word_def
  load_node_def load_tip_def load_edge_def scan_decimal_def strtod_def scan_float_def scan_sign_def
  scan_exponent_def isdigit_def digits_value_def digit_value_def atof_def strchr_dquote_def
  parse_quoted_def MAX_LINE_def f32_eval_defs

lemma fmt_f3_values:
  "fmt_f3 0 = ''0.000''" "fmt_f3 1 = ''1.000''" "fmt_f3 5 = ''5.000''" "fmt_f3 (- (1 / 2)) = ''-0.500''"
  by (simp_all add: fmt_f3_def round_half_even_def digit_char_def Let_def)

lemma action_graph_value:
  "action_graph =
    [\<lparr>name = ''A'', valence = 0, baseline_intensity = 5,
        edges = [\<lparr>to = 1, weight = 1, procedure = None\<rparr>], tips = []\<rparr>,
     \<lparr>name = ''B'', valence = 0, baseline_intensity = 5,
        edges = [\<lparr>to = 0, weight = 1, procedure = Some ''go''\<rparr>], tips = []\<rparr>]"
  by (simp add: action_graph_def graph_eval_defs)

lemma save_action_graph: "save_graph action_graph = Inr action_file"
  unfolding action_graph_value action_file_def by (simp add: save_eval_defs fmt_f3_values)

lemma fgets_action_file:
  "fgets_lines [] action_file =
     [''NODE A 0.000 5.000'' @ [newline], ''NODE B 0.000 5.000'' @ [newline],
      ''EDGE A B 1.000 '' @ [dquote, dquote, newline]]"
  by (simp add: action_file_def MAX_LINE_def)

lemma load_node_A:
  "load_line [] (''NODE A 0.000 5.000'' @ [newline]) =
     [\<lparr>name = ''A'', valence = 0, baseline_intensity = 5, edges = [], tips = []\<rparr>]"
  by (simp add: load_eval_defs graph_eval_defs)

lemma load_node_A_auto:
  "load_line [] (''NODE A -0.500 5.000'' @ [newline]) =
     [\<lparr>name = ''A'', valence = - 1 / 2, baseline_intensity = 5, edges = [], tips = []\<rparr>]"
  by (simp add: load_eval_defs graph_eval_defs)

lemma load_node_B:
  "load_line [\<lparr>name = ''A'', valence = v, baseline_intensity = 5, edges = [], tips = []\<rparr>]
       (''NODE B 0.000 5.000'' @ [newline]) =
     [\<lparr>name = ''A'', valence = v, baseline_intensity = 5, edges = [], tips = []\<rparr>,
      \<lparr>name = ''B'', valence = 0, baseline_intensity = 5, edges = [], tips = []\<rparr>]"
  by (simp add: load_eval_defs graph_eval_defs)

lemma load_edge_A_B:
  "load_line [\<lparr>name = ''A'', valence = v, baseline_intensity = 5, edges = [], tips = []\<rparr>,
        \<lparr>name = ''B'', valence = 0, baseline_intensity = 5, edges = [], tips = []\<rparr>]
       (''EDGE A B 1.000 '' @ [dquote, dquote, newline]) =
     [\<lparr>name = ''A'', valence = v, baseline_intensity = 5,
         edges = [\<lparr>to = 1, weight = 1, procedure = Some []\<rparr>], tips = []\<rparr>,
      \<lparr>name = ''B'', valence = 0, baseline_intensity = 5,
         edges = [\<lparr>to = 0, weight = 1, procedure = None\<rparr>], tips = []\<rparr>]"
  by (simp add: load_eval_defs graph_eval_defs)

text \<open>
  Claim C1 says that loading a saved graph into a fresh graph gives the same edges with
  the same procedures.  In the graph below the edge from B to A has the action \<open>go\<close>, and
  its mirror from A to B has none.  \<^verbatim>\<open>save_graph\<close> writes only the edge from the lower
  index, here the mirror, with the empty text; after loading, the edge from A to B has the
  empty text as procedure, the edge from B to A has none, and the action \<open>go\<close> is gone.
\<close>

theorem round_trip_loses_action:
  "node_edges action_graph ''B'' = [\<lparr>to = 0, weight = 1, procedure = Some ''go''\<rparr>]
   \<and> node_edges action_graph ''A'' = [\<lparr>to = 1, weight = 1, procedure = None\<rparr>]
   \<and> reload action_graph = Inr
       [\<lparr>name = ''A'', valence = 0, baseline_intensity = 5,
           edges = [\<lparr>to = 1, weight = 1, procedure = Some []\<rparr>], tips = []\<rparr>,
        \<lparr>name = ''B'', valence = 0, baseline_intensity = 5,
           edges = [\<lparr>to = 0, weight = 1, procedure = None\<rparr>], tips = []\<rparr>]"
proof -
  have "reload action_graph = Inr
       [\<lparr>name = ''A'', valence = 0, baseline_intensity = 5,
           edges = [\<lparr>to = 1, weight = 1, procedure = Some []\<rparr>], tips = []\<rparr>,
        \<lparr>name = ''B'', valence = 0, baseline_intensity = 5,
           edges = [\<lparr>to = 0, weight = 1, procedure = None\<rparr>], tips = []\<rparr>]"
    by (simp only: reload_def save_action_graph load_graph_def fgets_action_file graph_new_def
        sum.case fold_simps load_node_A load_node_B load_edge_A_B)
  moreover have "node_edges action_graph ''B'' = [\<lparr>to = 0, weight = 1, procedure = Some ''go''\<rparr>]"
    and "node_edges action_graph ''A'' = [\<lparr>to = 1, weight = 1, procedure = None\<rparr>]"
    unfolding action_graph_value by (simp_all add: node_edges_def graph_find_def)
  ultimately show ?thesis by simp
qed

lemma plain_graph_value:
  "plain_graph =
    [\<lparr>name = ''A'', valence = - 1 / 2, baseline_intensity = 5,
        edges = [\<lparr>to = 1, weight = 1, procedure = None\<rparr>], tips = []\<rparr>,
     \<lparr>name = ''B'', valence = 0, baseline_intensity = 5,
        edges = [\<lparr>to = 0, weight = 1, procedure = None\<rparr>], tips = []\<rparr>]"
  by (simp add: plain_graph_def graph_eval_defs)

lemma save_plain_graph: "save_graph plain_graph = Inr plain_file"
  unfolding plain_graph_value plain_file_def by (simp add: save_eval_defs fmt_f3_values)

lemma fgets_plain_file:
  "fgets_lines [] plain_file =
     [''NODE A -0.500 5.000'' @ [newline], ''NODE B 0.000 5.000'' @ [newline],
      ''EDGE A B 1.000 '' @ [dquote, dquote, newline]]"
  by (simp add: plain_file_def MAX_LINE_def)

text \<open>
  Claim C6 says that an edge with the empty procedure text gets no discount.  An edge
  without procedure is written with the empty text and comes back from the file with
  the empty text as procedure, not \<^verbatim>\<open>NULL\<close>; the planner tests the pointer only and
  multiplies its weight by \<^verbatim>\<open>0.8f\<close>: the cost from A to B is the float next to 0.95
  before saving and the float next to 0.76 after loading.
\<close>

theorem reloaded_empty_procedure_is_discounted:
  "reload plain_graph = Inr
       [\<lparr>name = ''A'', valence = - 1 / 2, baseline_intensity = 5,
           edges = [\<lparr>to = 1, weight = 1, procedure = Some []\<rparr>], tips = []\<rparr>,
        \<lparr>name = ''B'', valence = 0, baseline_intensity = 5,
           edges = [\<lparr>to = 0, weight = 1, procedure = None\<rparr>], tips = []\<rparr>]
   \<and> procedure_factor \<lparr>to = 1, weight = 1, procedure = Some []\<rparr> 1 = f32 (8 / 10)
   \<and> run_dijkstra_personalized plain_graph 0 1 = Inr (15938355 / 16777216, Some [0, 1])
   \<and> run_dijkstra_personalized
        [\<lparr>name = ''A'', valence = - 1 / 2, baseline_intensity = 5,
           edges = [\<lparr>to = 1, weight = 1, procedure = Some []\<rparr>], tips = []\<rparr>,
        \<lparr>name = ''B'', valence = 0, baseline_intensity = 5,
           edges = [\<lparr>to = 0, weight = 1, procedure = None\<rparr>], tips = []\<rparr>] 0 1
      = Inr (3187671 / 4194304, Some [0, 1])"
proof -
  have "reload plain_graph = Inr
       [\<lparr>name = ''A'', valence = - 1 / 2, baseline_intensity = 5,
           edges = [\<lparr>to = 1, weight = 1, procedure = Some []\<rparr>], tips = []\<rparr>,
        \<lparr>name = ''B'', valence = 0, baseline_intensity = 5,
           edges = [\<lparr>to = 0, weight = 1, procedure = None\<rparr>], tips = []\<rparr>]"
    by (simp only: reload_def save_plain_graph load_graph_def fgets_plain_file graph_new_def
        sum.case fold_simps load_node_A_auto load_node_B load_edge_A_B)
  moreover have "procedure_factor \<lparr>to = 1, weight = 1, procedure = Some []\<rparr> 1 = f32 (8 / 10)"
    by (simp add: procedure_factor_def f32_eval_defs)
  moreover have "run_dijkstra_personalized plain_graph 0 1 = Inr (15938355 / 16777216, Some [0, 1])"
    unfolding plain_graph_value by (simp add: dijkstra_eval_defs)
  moreover have "run_dijkstra_personalized
        [\<lparr>name = ''A'', valence = - 1 / 2, baseline_intensity = 5,
           edges = [\<lparr>to = 1, weight = 1, procedure = Some []\<rparr>], tips = []\<rparr>,
        \<lparr>name = ''B'', valence = 0, baseline_intensity = 5,
           edges = [\<lparr>to = 0, weight = 1, procedure = None\<rparr>], tips = []\<rparr>] 0 1
      = Inr (3187671 / 4194304, Some [0, 1])"
    by (simp add: dijkstra_eval_defs)
  ultimately show ?thesis by simp
qed

subsection \<open>Saving and loading a node with tips\<close>






lemma fmt_f3_fifth: "fmt_f3 (f32 (- (1 / 5))) = ''-0.200''"
  by (simp add: fmt_f3_def digit_char_def f32_eval_defs)


lemma node_line_fresh:
  "node_line (fresh_tip_node nm ts) = (''NODE '' @ nm @ '' -0.200 5.000'') @ [newline]"
  by (simp add: node_line_def fresh_tip_node_def fmt_f3_fifth fmt_f3_values)



text \<open>Reading its \<^verbatim>\<open>TIP\<close> lines, and the whole file.\<close>

lemma graph_add_tip_fresh:
  "graph_add_tip [fresh_tip_node nm ts] nm t = [fresh_tip_node nm (ts @ [t])]"
  by (simp add: graph_add_tip_def find_or_add_def graph_find_def fresh_tip_node_def)

text \<open>\<open>fresh_tip_node nm ts\<close> is the graph that calls of \<^verbatim>\<open>graph_add_tip\<close> with the
  emotion \<open>nm\<close> and the tips \<open>ts\<close> build from the empty graph.\<close>

lemma graph_add_tip_builds_fresh_node:
  assumes len: "length nm < MAX_NAME_LEN"
  shows "fold (\<lambda>t h. graph_add_tip h nm t) (t # ts) graph_new = [fresh_tip_node nm (t # ts)]"
proof -
  have first: "graph_add_tip graph_new nm t = [fresh_tip_node nm [t]]"
    using len by (simp add: graph_add_tip_def find_or_add_def graph_add_node_def graph_find_def
        graph_new_def fresh_tip_node_def MAX_NAME_LEN_def)
  have more: "fold (\<lambda>t h. graph_add_tip h nm t) us [fresh_tip_node nm acc]
      = [fresh_tip_node nm (acc @ us)]" for us acc
    by (induction us arbitrary: acc) (simp_all add: graph_add_tip_fresh)
  show ?thesis using first more [of ts "[t]"] by simp
qed


lemma save_fresh_tip_node:
  "save_graph [fresh_tip_node nm ts]
     = Inr (node_line (fresh_tip_node nm ts) @ concat (map (tip_line (fresh_tip_node nm ts)) ts))"
  by (simp add: save_graph_def save_node_def fresh_tip_node_def)







text \<open>A blank in the name: the \<^verbatim>\<open>NODE\<close> line is read as a node named by the first
  word, whose valence is the number read from the second word and whose baseline is the
  written valence; the tip goes to that node.\<close>

lemma blank_in_name_renames_node:
  "reload [fresh_tip_node ''very sad'' [''x'']]
     = Inr [\<lparr>name = ''very'', valence = 0, baseline_intensity = f32 (- 2 / 10), edges = [],
              tips = [''x'']\<rparr>]"
proof -
  have s: "save_graph [fresh_tip_node ''very sad'' [''x'']]
      = Inr (''NODE very sad -0.200 5.000'' @ [newline]
             @ ''TIP very sad '' @ [dquote] @ ''x'' @ [dquote, newline])"
    unfolding save_fresh_tip_node node_line_fresh
    by (simp add: tip_line_def fwrite_quoted_def fresh_tip_node_def)
  have f: "fgets_lines [] (''NODE very sad -0.200 5.000'' @ [newline]
             @ ''TIP very sad '' @ [dquote] @ ''x'' @ [dquote, newline])
      = [''NODE very sad -0.200 5.000'' @ [newline],
         ''TIP very sad '' @ [dquote] @ ''x'' @ [dquote, newline]]"
    by (simp add: MAX_LINE_def)
  have l1: "load_line [] (''NODE very sad -0.200 5.000'' @ [newline])
      = [\<lparr>name = ''very'', valence = 0, baseline_intensity = f32 (- 2 / 10), edges = [],
            tips = []\<rparr>]"
    by (simp add: load_eval_defs graph_eval_defs)
  have l2: "load_line [\<lparr>name = ''very'', valence = 0, baseline_intensity = f32 (- 2 / 10),
            edges = [], tips = []\<rparr>] (''TIP very sad '' @ [dquote] @ ''x'' @ [dquote, newline])
      = [\<lparr>name = ''very'', valence = 0, baseline_intensity = f32 (- 2 / 10), edges = [],
            tips = [''x'']\<rparr>]"
    by (simp add: load_eval_defs graph_eval_defs)
  show ?thesis
    by (simp only: reload_def s load_graph_def f graph_new_def sum.case fold_simps l1 l2)
qed




end
